theory Spec2Isabelle
  imports Main "HOL-Library.AList"
begin

section \<open>Data model of the Slack bridge (bridge/slack)\<close>

text \<open>
  Times and durations are counted in nanoseconds, as Go's \<open>time.Duration\<close> does.
  \<open>time.Since\<close> saturates at the bounds of a signed 64-bit duration.
\<close>

type_synonym Time = int
type_synonym Duration = int

definition Second :: Duration where
  "Second = 1000000000"

definition Minute :: Duration where
  "Minute = 60 * Second"

definition maxDuration :: Duration where
  "maxDuration = 2 ^ 63 - 1"

definition minDuration :: Duration where
  "minDuration = - (2 ^ 63)"

definition time_Since :: "Time \<Rightarrow> Time \<Rightarrow> Duration" where
  "time_Since now t =
     (let d = now - t in
      if d < minDuration then minDuration
      else if maxDuration < d then maxDuration
      else d)"

text \<open>The string constants of slack.go.\<close>

definition sChannelJoin :: string where "sChannelJoin = ''channel_join''"
definition sChannelLeave :: string where "sChannelLeave = ''channel_leave''"
definition sChannelJoined :: string where "sChannelJoined = ''channel_joined''"
definition sMemberJoined :: string where "sMemberJoined = ''member_joined_channel''"
definition sMessageChanged :: string where "sMessageChanged = ''message_changed''"
definition sMessageDeleted :: string where "sMessageDeleted = ''message_deleted''"
definition sSlackAttachment :: string where "sSlackAttachment = ''slack_attachment''"
definition sPinnedItem :: string where "sPinnedItem = ''pinned_item''"
definition sUnpinnedItem :: string where "sUnpinnedItem = ''unpinned_item''"
definition sChannelTopic :: string where "sChannelTopic = ''channel_topic''"
definition sChannelPurpose :: string where "sChannelPurpose = ''channel_purpose''"
definition sFileComment :: string where "sFileComment = ''file_comment''"
definition sMeMessage :: string where "sMeMessage = ''me_message''"
definition sSystemUser :: string where "sSystemUser = ''system''"
definition sSlackBotUser :: string where "sSlackBotUser = ''slackbot''"
definition cfileDownloadChannel :: string where "cfileDownloadChannel = ''file_download_channel''"

definition tokenConfig :: string where "tokenConfig = ''TokenBot''"
definition incomingWebhookConfig :: string where "incomingWebhookConfig = ''WebhookBindAddress''"
definition outgoingWebhookConfig :: string where "outgoingWebhookConfig = ''WebhookURL''"
definition useNickPrefixConfig :: string where "useNickPrefixConfig = ''PrefixMessagesWithNick''"
definition iconURLConfig :: string where "iconURLConfig = ''iconurl''"
definition noSendJoinConfig :: string where "noSendJoinConfig = ''nosendjoinpart''"
definition messageLength :: nat where "messageLength = 3000"

named_theorems slack_consts \<open>unfolding rules of the string constants\<close>

lemmas slack_const_defs [slack_consts] =
  sChannelJoin_def sChannelLeave_def sChannelJoined_def sMemberJoined_def
  sMessageChanged_def sMessageDeleted_def sSlackAttachment_def sPinnedItem_def
  sUnpinnedItem_def sChannelTopic_def sChannelPurpose_def sFileComment_def
  sMeMessage_def sSystemUser_def sSlackBotUser_def cfileDownloadChannel_def
  tokenConfig_def incomingWebhookConfig_def outgoingWebhookConfig_def
  useNickPrefixConfig_def iconURLConfig_def noSendJoinConfig_def


text \<open>
  Modelled from the spec: the event kinds of the canonical message (package
  bridge/config, not part of the sources at hand): "Event is either empty (plain message)
  or one of a closed set: UserTyping, MsgDelete, FileDelete, JoinLeave, TopicChange,
  UserAction, GetChannelMembers"; the kinds are distinct non-empty strings.
\<close>

definition EventUserTyping :: string where "EventUserTyping = ''user_typing''"
definition EventMsgDelete :: string where "EventMsgDelete = ''msg_delete''"
definition EventFileDelete :: string where "EventFileDelete = ''file_delete''"
definition EventJoinLeave :: string where "EventJoinLeave = ''join_leave''"
definition EventTopicChange :: string where "EventTopicChange = ''topic_change''"
definition EventUserAction :: string where "EventUserAction = ''user_action''"
definition EventGetChannelMembers :: string where "EventGetChannelMembers = ''get_channel_members''"

lemmas event_const_defs [slack_consts] =
  EventUserTyping_def EventMsgDelete_def EventFileDelete_def EventJoinLeave_def
  EventTopicChange_def EventUserAction_def EventGetChannelMembers_def


subsection \<open>Events, files and messages\<close>

text \<open>
  A rich-content block of the platform library: the code only tells a section block
  (with its block ID) from every other kind of block.
\<close>

datatype Block = SectionBlock string | OtherBlock string

record File =
  file_ID :: string
  file_Name :: string
  file_Size :: int
  file_URLPrivateDownload :: string

record Attachment =
  att_Fallback :: string
  att_Color :: string
  att_Pretext :: string
  att_AuthorName :: string
  att_AuthorLink :: string
  att_AuthorIcon :: string
  att_Title :: string
  att_TitleLink :: string
  att_Text :: string
  att_ImageURL :: string
  att_ThumbURL :: string
  att_Footer :: string
  att_FooterIcon :: string

text \<open>The prior-version sub-event of a message event; \<open>sub_Edited\<close> is a pointer.\<close>

record SubMsg =
  sub_Text :: string
  sub_Timestamp :: string
  sub_ThreadTimestamp :: string
  sub_Edited :: "string option"
  sub_Blocks :: "Block list"

record MessageEvent =
  ev_SubType :: string
  ev_User :: string
  ev_Username :: string
  ev_BotID :: string
  ev_Text :: string
  ev_Channel :: string
  ev_Hidden :: bool
  ev_DeletedTimestamp :: string
  ev_Blocks :: "Block list"
  ev_SubMessage :: "SubMsg option"
  ev_Attachments :: "Attachment list"
  ev_Files :: "File list"

text \<open>
  \<open>config.FileInfo\<close>; \<open>fi_Data\<close> is a pointer to the bytes. The payloads of
  \<open>Message.Extra\<close> are values of any type: the code asserts a file, a list of
  attachments or a map from field names to values (\<open>Some\<close> for a string value).
\<close>

record FileInfo =
  fi_Name :: string
  fi_Data :: "string option"
  fi_Comment :: string
  fi_URL :: string
  fi_Size :: int

datatype Payload =
    PFileInfo FileInfo
  | PAttachments "Attachment list"
  | PMap "(string \<times> string option) list"
  | PMembers string
  | POther string

text \<open>
  The canonical message \<open>config.Message\<close>. \<open>msg_Extra\<close> is a Go map:
  \<open>None\<close> is the nil map, \<open>Some\<close> an association list with distinct keys.
\<close>

record Message =
  msg_Text :: string
  msg_Channel :: string
  msg_Username :: string
  msg_UserID :: string
  msg_Avatar :: string
  msg_Account :: string
  msg_Event :: string
  msg_Protocol :: string
  msg_ID :: string
  msg_ParentID :: string
  msg_Extra :: "(string \<times> Payload list) list option"

definition Extra_get :: "(string \<times> Payload list) list option \<Rightarrow> string \<Rightarrow> Payload list" where
  "Extra_get extra k =
     (case extra of
        None \<Rightarrow> []
      | Some m \<Rightarrow> (case map_of m k of None \<Rightarrow> [] | Some l \<Rightarrow> l))"

definition Extra_len :: "(string \<times> Payload list) list option \<Rightarrow> nat" where
  "Extra_len extra = (case extra of None \<Rightarrow> 0 | Some m \<Rightarrow> length m)"

text \<open>The ways the Go code can panic.\<close>

datatype Panic = TypeAssertion | NilDereference | NilMapWrite

definition Extra_set :: "(string \<times> Payload list) list option \<Rightarrow> string \<Rightarrow> Payload list
    \<Rightarrow> Panic + (string \<times> Payload list) list option" where
  "Extra_set extra k v =
     (case extra of
        None \<Rightarrow> Inl NilMapWrite
      | Some m \<Rightarrow> Inr (Some (AList.update k v m)))"

text \<open>
  An error value of a collaborator: its \<open>Error()\<close> text, and the suggested wait when
  it is a \<open>*slack.RateLimitedError\<close>. The errors this package builds itself wrap it.
\<close>

datatype Err = Err (Error_text: string) (RetryAfter: "Duration option")

datatype GoError =
    Collab Err
  | CouldNotJoinChannel Err
  | NotMemberOfChannel string
  | CouldNotSendMessage Err
  | DownloadFailed string Err
  | EmptyBotMessage
  | EmptyMessageWithSubmessage
  | EmptyMessage
  | NoConnectionMethod

record Channel =
  ch_ID :: string
  ch_Name :: string
  ch_IsMember :: bool

text \<open>What \<open>prepareMessageOptions\<close> passes to the platform.\<close>

record MsgOptions =
  opt_Text :: string
  opt_BlockText :: string
  opt_BlockID :: string
  opt_EnableLinkUnfurl :: bool
  opt_Attachments :: "Attachment list"
  opt_AsUser :: bool
  opt_Username :: string
  opt_LinkNames :: int
  opt_IconURL :: string
  opt_ThreadTimestamp :: string

record FileUploadParameters =
  up_Reader :: string
  up_Filename :: string
  up_Channels :: "string list"
  up_InitialComment :: string
  up_ThreadTimestamp :: string

text \<open>
  The file the platform returns for an upload: its ID, and for each channel the
  timestamps of the messages that share it.
\<close>

record UploadedFile =
  res_ID :: string
  res_SharesPrivate :: "(string \<times> string list) list"
  res_SharesPublic :: "(string \<times> string list) list"

record OMessage =
  om_IconURL :: string
  om_Attachments :: "Attachment list"
  om_Channel :: string
  om_UserName :: string
  om_Text :: string

text \<open>The calls the adapter makes to the platform, the webhook client and the directory.\<close>

datatype Call =
    CallPostMessage string MsgOptions
  | CallUpdateMessage string string MsgOptions
  | CallDeleteMessage string string
  | CallSetTopicOfConversation string string
  | CallSetPurposeOfConversation string string
  | CallUploadFile FileUploadParameters
  | CallJoinConversation string
  | CallGetUserInfo string
  | CallWebhookSend OMessage
  | CallDownloadFileAuth string string
  | CallPopulateChannels bool

text \<open>
  Values kept in the cache: a timestamp under the keys \<open>file<id>\<close> and
  \<open>filename<name>\<close>, a channel ID under \<open>file_download_channel<id>\<close>.
\<close>

datatype CacheVal = CTime Time | CString string

subsection \<open>The adapter state\<close>

text \<open>
  The fields of \<open>Bslack\<close> that the modelled functions read or write, the configuration
  (\<open>GetString\<close>, \<open>GetBool\<close>), and the part of the world the code acts on: the clock,
  the total time spent in \<open>time.Sleep\<close>, the calls made to collaborators so far (oldest
  first) and the messages handed to the relay on \<open>b.Remote\<close>.
  The cache is the LRU cache of \<open>newBridge\<close> (capacity 5000), most recently used first.
  \<open>sc\<close> tells whether the platform client is set.
\<close>

record Bslack =
  uuid :: string
  legacy :: bool
  sc :: bool
  useChannelID :: bool
  cache :: "(string \<times> CacheVal) list"
  GetString :: "string \<Rightarrow> string"
  GetBool :: "string \<Rightarrow> bool"
  Account :: string
  clock :: Time
  slept :: Duration
  calls :: "Call list"
  remote :: "Message list"

definition cacheSize :: nat where
  "cacheSize = 5000"

definition cache_Get :: "(string \<times> CacheVal) list \<Rightarrow> string
    \<Rightarrow> CacheVal option \<times> (string \<times> CacheVal) list" where
  "cache_Get c k =
     (case map_of c k of
        None \<Rightarrow> (None, c)
      | Some v \<Rightarrow> (Some v, (k, v) # filter (\<lambda>p. fst p \<noteq> k) c))"

definition cache_Add :: "(string \<times> CacheVal) list \<Rightarrow> string \<Rightarrow> CacheVal
    \<Rightarrow> (string \<times> CacheVal) list" where
  "cache_Add c k v =
     (case map_of c k of
        Some old \<Rightarrow> (k, v) # filter (\<lambda>p. fst p \<noteq> k) c
      | None \<Rightarrow>
          (let c' = (k, v) # c in
           if cacheSize < length c' then butlast c' else c'))"

text \<open>\<open>time.Sleep\<close> returns at once for a duration that is not positive.\<close>

definition time_Sleep :: "Duration \<Rightarrow> Bslack \<Rightarrow> Bslack" where
  "time_Sleep d b =
     (if d \<le> 0 then b else b\<lparr>clock := clock b + d, slept := slept b + d\<rparr>)"

text \<open>
  The collaborators whose code is not part of the sources at hand, as parameters: the
  helpers of bridge/helper, bridge/config and helpers.go, the channel directory, and the
  platform, the webhook client and the download, whose answer to a call may depend on the
  number of calls made before it (so that a call can fail first and succeed later).
  \<open>env_parseEnvelope\<close> is the event wrapper after \<open>json.Unmarshal\<close> of the body
  (its error is ignored by the code), \<open>env_parseChallenge\<close> the second decoding.
\<close>

record EventWrapper =
  evt_Type :: string
  evt_Challenge :: string
  evt_Event_Type :: string
  evt_Event_SubType :: string
  evt_Event_User :: string
  evt_Event_Text :: string
  evt_Event_Channel :: string
  evt_Event_Ts :: string
  evt_Event_DeletedTs :: string

record Env =
  env_ClipMessage :: "string \<Rightarrow> nat \<Rightarrow> string \<Rightarrow> string"
  env_replaceCodeFence :: "string \<Rightarrow> string"
  env_ParentNotFound :: "Message \<Rightarrow> bool"
  env_getChannel :: "string \<Rightarrow> Err + Channel"
  env_getChannelByID :: "string \<Rightarrow> Err + Channel"
  env_getChannelMembers :: "Payload"
  env_HandleExtra :: "Message \<Rightarrow> Message list"
  env_GetIconURL :: "Message \<Rightarrow> string \<Rightarrow> string"
  env_extractTopicOrPurpose :: "string \<Rightarrow> string \<times> string"
  env_populateReceivedMessage :: "MessageEvent \<Rightarrow> Err + Message"
  env_HandleDownloadSize :: "Message \<Rightarrow> string \<Rightarrow> int \<Rightarrow> Err option \<times> Message"
  env_HandleDownloadData2 :: "Message \<Rightarrow> string \<Rightarrow> string \<Rightarrow> string \<Rightarrow> string \<Rightarrow> string
      \<Rightarrow> Message"
  env_PostMessage :: "nat \<Rightarrow> string \<Rightarrow> MsgOptions \<Rightarrow> Err + string"
  env_UpdateMessage :: "nat \<Rightarrow> string \<Rightarrow> string \<Rightarrow> MsgOptions \<Rightarrow> Err option"
  env_DeleteMessage :: "nat \<Rightarrow> string \<Rightarrow> string \<Rightarrow> Err option"
  env_SetTopicOfConversation :: "nat \<Rightarrow> string \<Rightarrow> string \<Rightarrow> Err option"
  env_SetPurposeOfConversation :: "nat \<Rightarrow> string \<Rightarrow> string \<Rightarrow> Err option"
  env_UploadFile :: "nat \<Rightarrow> FileUploadParameters \<Rightarrow> Err + UploadedFile"
  env_JoinConversation :: "nat \<Rightarrow> string \<Rightarrow> Err option"
  env_GetUserInfo :: "nat \<Rightarrow> string \<Rightarrow> Err + string"
  env_WebhookSend :: "nat \<Rightarrow> OMessage \<Rightarrow> Err option"
  env_DownloadFileAuth :: "nat \<Rightarrow> string \<Rightarrow> string \<Rightarrow> Err + string"
  env_parseEnvelope :: "string \<Rightarrow> EventWrapper"
  env_parseChallenge :: "string \<Rightarrow> Err + string"

text \<open>A call is recorded in the order it is made.\<close>

definition called :: "Call \<Rightarrow> Bslack \<Rightarrow> Bslack" where
  "called c b = b\<lparr>calls := calls b @ [c]\<rparr>"


subsection \<open>helpers.go: the rate-limit classification\<close>

text \<open>
  Modelled from the spec: \<open>handleRateLimit\<close> (helpers.go, not part of the sources at
  hand): "recognizes a rate-limit error carrying a suggested wait duration and returns
  retryable=true with that wait; any other error returns retryable=false"; on a
  retryable error the caller's loop "sleeps the indicated wait and reissues". The
  result is the error to give up with, or \<open>None\<close> after the sleep.
\<close>

definition handleRateLimit :: "Err \<Rightarrow> Bslack \<Rightarrow> Err option \<times> Bslack" where
  "handleRateLimit err b =
     (case RetryAfter err of
        None \<Rightarrow> (Some err, b)
      | Some wait \<Rightarrow> (None, time_Sleep wait b))"

subsection \<open>slack.go: message options\<close>

definition extractStringField :: "(string \<times> string option) list \<Rightarrow> string \<Rightarrow> string" where
  "extractStringField data field =
     (case map_of data field of
        Some (Some v) \<Rightarrow> v
      | _ \<Rightarrow> [])"

fun createAttach_loop :: "Payload list \<Rightarrow> Panic + Attachment list" where
  "createAttach_loop [] = Inr []"
| "createAttach_loop (PMap entry # vs) =
     (case createAttach_loop vs of
        Inl p \<Rightarrow> Inl p
      | Inr rest \<Rightarrow>
          Inr (\<lparr>att_Fallback = extractStringField entry ''fallback'',
                att_Color = extractStringField entry ''color'',
                att_Pretext = extractStringField entry ''pretext'',
                att_AuthorName = extractStringField entry ''author_name'',
                att_AuthorLink = extractStringField entry ''author_link'',
                att_AuthorIcon = extractStringField entry ''author_icon'',
                att_Title = extractStringField entry ''title'',
                att_TitleLink = extractStringField entry ''title_link'',
                att_Text = extractStringField entry ''text'',
                att_ImageURL = extractStringField entry ''image_url'',
                att_ThumbURL = extractStringField entry ''thumb_url'',
                att_Footer = extractStringField entry ''footer'',
                att_FooterIcon = extractStringField entry ''footer_icon''\<rparr> # rest))"
| "createAttach_loop (v # vs) = Inl TypeAssertion"

definition createAttach :: "(string \<times> Payload list) list option \<Rightarrow> Panic + Attachment list" where
  "createAttach extra = createAttach_loop (Extra_get extra ''attachments'')"

text \<open>The loop \<open>attachs = append(attachs, attach.([]slack.Attachment)...)\<close>.\<close>

fun slackAttachments :: "Payload list \<Rightarrow> Panic + Attachment list" where
  "slackAttachments [] = Inr []"
| "slackAttachments (PAttachments as # vs) =
     (case slackAttachments vs of
        Inl p \<Rightarrow> Inl p
      | Inr rest \<Rightarrow> Inr (as @ rest))"
| "slackAttachments (v # vs) = Inl TypeAssertion"

definition prepareMessageOptions :: "Env \<Rightarrow> Bslack \<Rightarrow> Message \<Rightarrow> Panic + MsgOptions" where
  "prepareMessageOptions E b msg =
     (case createAttach (msg_Extra msg) of
        Inl p \<Rightarrow> Inl p
      | Inr fileAttachments \<Rightarrow>
          (case (if msg_Extra msg \<noteq> None
                 then slackAttachments (Extra_get (msg_Extra msg) sSlackAttachment)
                 else Inr []) of
             Inl p \<Rightarrow> Inl p
           | Inr attachs \<Rightarrow>
               Inr \<lparr>opt_Text = msg_Text msg,
                     opt_BlockText = msg_Text msg,
                     opt_BlockID = ''matterbridge_'' @ uuid b,
                     opt_EnableLinkUnfurl = True,
                     opt_Attachments = fileAttachments @ attachs,
                     opt_AsUser = GetBool b useNickPrefixConfig,
                     opt_Username = msg_Username msg,
                     opt_LinkNames = 1,
                     opt_IconURL =
                       (if msg_Avatar msg \<noteq> [] then msg_Avatar msg
                        else env_GetIconURL E msg (GetString b iconURLConfig)),
                     opt_ThreadTimestamp = msg_ParentID msg\<rparr>))"

subsection \<open>slack.go: the platform calls of the API sender, each in its retry loop\<close>

partial_function (option) postAPIMessage_loop ::
    "Env \<Rightarrow> string \<Rightarrow> MsgOptions \<Rightarrow> Bslack \<Rightarrow> ((string \<times> GoError option) \<times> Bslack) option" where
  "postAPIMessage_loop E channelID messageOptions b =
     (case env_PostMessage E (length (calls b)) channelID messageOptions of
        Inr msgID \<Rightarrow> Some ((msgID, None), called (CallPostMessage channelID messageOptions) b)
      | Inl err \<Rightarrow>
          (case handleRateLimit err (called (CallPostMessage channelID messageOptions) b) of
             (None, b') \<Rightarrow> postAPIMessage_loop E channelID messageOptions b'
           | (Some err', b') \<Rightarrow> Some (([], Some (Collab err')), b')))"

definition postAPIMessage :: "Env \<Rightarrow> Message \<Rightarrow> Channel \<Rightarrow> Bslack
    \<Rightarrow> (Panic + (string \<times> GoError option) \<times> Bslack) option" where
  "postAPIMessage E msg channelInfo b =
     (if msg_Text msg = [] then Some (Inr (([], None), b))
      else
        (case prepareMessageOptions E b msg of
           Inl p \<Rightarrow> Some (Inl p)
         | Inr messageOptions \<Rightarrow>
             map_option Inr (postAPIMessage_loop E (ch_ID channelInfo) messageOptions b)))"

partial_function (option) editMessage_loop ::
    "Env \<Rightarrow> string \<Rightarrow> string \<Rightarrow> MsgOptions \<Rightarrow> Bslack \<Rightarrow> ((bool \<times> GoError option) \<times> Bslack) option" where
  "editMessage_loop E channelID msgID messageOptions b =
     (case env_UpdateMessage E (length (calls b)) channelID msgID messageOptions of
        None \<Rightarrow> Some ((True, None), called (CallUpdateMessage channelID msgID messageOptions) b)
      | Some err \<Rightarrow>
          (case handleRateLimit err
                  (called (CallUpdateMessage channelID msgID messageOptions) b) of
             (None, b') \<Rightarrow> editMessage_loop E channelID msgID messageOptions b'
           | (Some err', b') \<Rightarrow> Some ((True, Some (Collab err')), b')))"

definition editMessage :: "Env \<Rightarrow> Message \<Rightarrow> Channel \<Rightarrow> Bslack
    \<Rightarrow> (Panic + (bool \<times> GoError option) \<times> Bslack) option" where
  "editMessage E msg channelInfo b =
     (if msg_ID msg = [] then Some (Inr ((False, None), b))
      else
        (case prepareMessageOptions E b msg of
           Inl p \<Rightarrow> Some (Inl p)
         | Inr messageOptions \<Rightarrow>
             map_option Inr
               (editMessage_loop E (ch_ID channelInfo) (msg_ID msg) messageOptions b)))"

partial_function (option) deleteMessage_loop ::
    "Env \<Rightarrow> string \<Rightarrow> string \<Rightarrow> Bslack \<Rightarrow> ((bool \<times> GoError option) \<times> Bslack) option" where
  "deleteMessage_loop E channelID msgID b =
     (case env_DeleteMessage E (length (calls b)) channelID msgID of
        None \<Rightarrow> Some ((True, None), called (CallDeleteMessage channelID msgID) b)
      | Some err \<Rightarrow>
          (case handleRateLimit err (called (CallDeleteMessage channelID msgID) b) of
             (None, b') \<Rightarrow> deleteMessage_loop E channelID msgID b'
           | (Some err', b') \<Rightarrow> Some ((True, Some (Collab err')), b')))"

definition deleteMessage :: "Env \<Rightarrow> Message \<Rightarrow> Channel \<Rightarrow> Bslack
    \<Rightarrow> ((bool \<times> GoError option) \<times> Bslack) option" where
  "deleteMessage E msg channelInfo b =
     (if msg_Event msg \<noteq> EventMsgDelete then Some ((False, None), b)
      else if msg_ID msg = [] then Some ((True, None), b)
      else deleteMessage_loop E (ch_ID channelInfo) (msg_ID msg) b)"

text \<open>
  The loop of \<open>updateTopicOrPurpose\<close>: the switch on the kind of change is inside the
  loop, and an unhandled kind returns at once.
\<close>

partial_function (option) updateTopicOrPurpose_loop ::
    "Env \<Rightarrow> string \<Rightarrow> string \<Rightarrow> string \<Rightarrow> Bslack \<Rightarrow> (GoError option \<times> Bslack) option" where
  "updateTopicOrPurpose_loop E incomingChangeType channelID text b =
     (case (if incomingChangeType = ''topic''
            then Some (env_SetTopicOfConversation E (length (calls b)) channelID text,
                       called (CallSetTopicOfConversation channelID text) b)
            else if incomingChangeType = ''purpose''
            then Some (env_SetPurposeOfConversation E (length (calls b)) channelID text,
                       called (CallSetPurposeOfConversation channelID text) b)
            else None) of
        None \<Rightarrow> Some (None, b)
      | Some (None, b1) \<Rightarrow> Some (None, b1)
      | Some (Some err, b1) \<Rightarrow>
          (case handleRateLimit err b1 of
             (None, b') \<Rightarrow> updateTopicOrPurpose_loop E incomingChangeType channelID text b'
           | (Some err', b') \<Rightarrow> Some (Some (Collab err'), b')))"

definition updateTopicOrPurpose :: "Env \<Rightarrow> Message \<Rightarrow> Channel \<Rightarrow> Bslack
    \<Rightarrow> (GoError option \<times> Bslack) option" where
  "updateTopicOrPurpose E msg channelInfo b =
     (case env_extractTopicOrPurpose E (msg_Text msg) of
        (incomingChangeType, text) \<Rightarrow>
          updateTopicOrPurpose_loop E incomingChangeType (ch_ID channelInfo) text b)"

definition handleTopicOrPurpose :: "Env \<Rightarrow> Message \<Rightarrow> Channel \<Rightarrow> Bslack
    \<Rightarrow> ((bool \<times> GoError option) \<times> Bslack) option" where
  "handleTopicOrPurpose E msg channelInfo b =
     (if msg_Event msg \<noteq> EventTopicChange then Some ((False, None), b)
      else if GetBool b ''SyncTopic''
      then map_option (\<lambda>(err, b'). ((True, err), b')) (updateTopicOrPurpose E msg channelInfo b)
      else if GetBool b ''ShowTopicChange'' then Some ((False, None), b)
      else Some ((True, None), b))"


subsection \<open>slack.go: file upload\<close>

text \<open>\<open>if v, ok := shares[channelID]; ok && len(v) > 0 { messageID = v[0].Ts }\<close>\<close>

definition shareTs :: "(string \<times> string list) list \<Rightarrow> string \<Rightarrow> string \<Rightarrow> string" where
  "shareTs shares channelID messageID =
     (case map_of shares channelID of
        Some (ts # rest) \<Rightarrow> ts
      | _ \<Rightarrow> messageID)"

text \<open>The parameters of the upload call for one file payload.\<close>

definition uploadFile_params :: "Message \<Rightarrow> FileInfo \<Rightarrow> string \<Rightarrow> string \<Rightarrow> FileUploadParameters" where
  "uploadFile_params msg fi data channelID =
     \<lparr>up_Reader = data, up_Filename = fi_Name fi, up_Channels = [channelID],
       up_InitialComment = ''File from '' @ msg_Username msg
         @ (if fi_Comment fi \<noteq> [] then '' with comment: '' @ fi_Comment fi else []),
       up_ThreadTimestamp = msg_ParentID msg\<rparr>"

text \<open>
  The loop of \<open>uploadFile\<close> over \<open>msg.Extra["file"]\<close>: \<open>msg\<close> is updated in place,
  the filename marker is recorded before the upload call, the file-id marker after it
  when the platform returns an ID; both carry the timestamp taken before the call.
\<close>

fun uploadFile_loop :: "Env \<Rightarrow> string \<Rightarrow> Payload list \<Rightarrow> Message \<Rightarrow> string \<Rightarrow> Bslack
    \<Rightarrow> Panic + (string \<times> GoError option) \<times> Bslack" where
  "uploadFile_loop E channelID [] msg messageID b = Inr ((messageID, None), b)"
| "uploadFile_loop E channelID (PFileInfo fi # fs) msg messageID b =
     (let msg1 = (if msg_Text msg = fi_Comment fi then msg\<lparr>msg_Text := []\<rparr> else msg);
          ts = clock b;
          b1 = b\<lparr>cache := cache_Add (cache b) (''filename'' @ fi_Name fi) (CTime ts)\<rparr>
      in
      case fi_Data fi of
        None \<Rightarrow> Inl NilDereference
      | Some data \<Rightarrow>
          (let params = uploadFile_params msg1 fi data channelID;
               b2 = called (CallUploadFile params) b1
           in
           case env_UploadFile E (length (calls b1)) params of
             Inl err \<Rightarrow> Inr (([], Some (Collab err)), b2)
           | Inr res \<Rightarrow>
               if res_ID res \<noteq> []
               then uploadFile_loop E channelID fs msg1
                      (shareTs (res_SharesPublic res) channelID
                         (shareTs (res_SharesPrivate res) channelID messageID))
                      (b2\<lparr>cache := cache_Add (cache b2) (''file'' @ res_ID res) (CTime ts)\<rparr>)
               else uploadFile_loop E channelID fs msg1 messageID b2))"
| "uploadFile_loop E channelID (f # fs) msg messageID b =
     uploadFile_loop E channelID fs msg messageID b"

definition uploadFile :: "Env \<Rightarrow> Message \<Rightarrow> string \<Rightarrow> Bslack
    \<Rightarrow> Panic + (string \<times> GoError option) \<times> Bslack" where
  "uploadFile E msg channelID b =
     uploadFile_loop E channelID (Extra_get (msg_Extra msg) ''file'') msg [] b"

subsection \<open>slack.go: the webhook sender\<close>

text \<open>The posts of the side payloads: a failure is logged, not returned.\<close>

fun sendWebhook_extra :: "Env \<Rightarrow> Message list \<Rightarrow> Message \<Rightarrow> Bslack \<Rightarrow> Bslack" where
  "sendWebhook_extra E [] msg b = b"
| "sendWebhook_extra E (rmsg # rest) msg b =
     sendWebhook_extra E rest msg
       (called (CallWebhookSend
          \<lparr>om_IconURL = env_GetIconURL E rmsg (GetString b iconURLConfig),
            om_Attachments = [], om_Channel = msg_Channel msg,
            om_UserName = msg_Username rmsg, om_Text = msg_Text rmsg\<rparr>) b)"

text \<open>The URLs of the file payloads, appended to the text.\<close>

fun sendWebhook_fileURLs :: "Payload list \<Rightarrow> string \<Rightarrow> string" where
  "sendWebhook_fileURLs [] text = text"
| "sendWebhook_fileURLs (PFileInfo fi # fs) text =
     sendWebhook_fileURLs fs (if fi_URL fi \<noteq> [] then text @ '' '' @ fi_URL fi else text)"
| "sendWebhook_fileURLs (f # fs) text = sendWebhook_fileURLs fs text"

definition sendWebhook :: "Env \<Rightarrow> Message \<Rightarrow> Bslack \<Rightarrow> Panic + GoError option \<times> Bslack" where
  "sendWebhook E msg b =
     (if msg_Event msg \<noteq> [] then Inr (None, b)
      else
        (let msg1 = (if GetBool b useNickPrefixConfig
                     then msg\<lparr>msg_Text := msg_Username msg @ msg_Text msg\<rparr> else msg);
             b1 = (if msg_Extra msg1 \<noteq> None
                   then sendWebhook_extra E (env_HandleExtra E msg1) msg1 b else b);
             msg2 = (if msg_Extra msg1 \<noteq> None
                     then msg1\<lparr>msg_Text :=
                            sendWebhook_fileURLs (Extra_get (msg_Extra msg1) ''file'')
                              (msg_Text msg1)\<rparr>
                     else msg1)
         in
         case slackAttachments (Extra_get (msg_Extra msg2) sSlackAttachment) of
           Inl p \<Rightarrow> Inl p
         | Inr attachs \<Rightarrow>
             (let matterMessage =
                    \<lparr>om_IconURL =
                       (if msg_Avatar msg2 \<noteq> [] then msg_Avatar msg2
                        else env_GetIconURL E msg2 (GetString b iconURLConfig)),
                      om_Attachments = attachs, om_Channel = msg_Channel msg2,
                      om_UserName = msg_Username msg2, om_Text = msg_Text msg2\<rparr>
              in
              case env_WebhookSend E (length (calls b1)) matterMessage of
                Some err \<Rightarrow> Inr (Some (Collab err), called (CallWebhookSend matterMessage) b1)
              | None \<Rightarrow> Inr (None, called (CallWebhookSend matterMessage) b1))))"


subsection \<open>slack.go: the API sender and Send\<close>

definition Message_zero :: Message where
  "Message_zero = \<lparr>msg_Text = [], msg_Channel = [], msg_Username = [], msg_UserID = [],
     msg_Avatar = [], msg_Account = [], msg_Event = [], msg_Protocol = [], msg_ID = [],
     msg_ParentID = [], msg_Extra = None\<rparr>"

text \<open>\<open>handleGetChannelMembers\<close> (handlers.go) hands the roster to the relay.\<close>

definition handleGetChannelMembers :: "Env \<Rightarrow> Message \<Rightarrow> Bslack \<Rightarrow> bool \<times> Bslack" where
  "handleGetChannelMembers E rmsg b =
     (if msg_Event rmsg \<noteq> EventGetChannelMembers then (False, b)
      else
        (True, b\<lparr>remote := remote b @
           [Message_zero\<lparr>msg_Extra := Some [(EventGetChannelMembers, [env_getChannelMembers E])],
              msg_Event := EventGetChannelMembers, msg_Account := Account b\<rparr>]\<rparr>))"

text \<open>The posts of the side payloads in \<open>sendAPI\<close>: an error is logged, not returned.\<close>

fun sendAPI_extraMsgs :: "Env \<Rightarrow> Message list \<Rightarrow> Channel \<Rightarrow> Bslack \<Rightarrow> (Panic + Bslack) option" where
  "sendAPI_extraMsgs E [] channelInfo b = Some (Inr b)"
| "sendAPI_extraMsgs E (rmsg # rest) channelInfo b =
     (case postAPIMessage E (rmsg\<lparr>msg_Text := msg_Username rmsg @ msg_Text rmsg\<rparr>)
             channelInfo b of
        None \<Rightarrow> None
      | Some (Inl p) \<Rightarrow> Some (Inl p)
      | Some (Inr (r, b')) \<Rightarrow> sendAPI_extraMsgs E rest channelInfo b')"

text \<open>The end of \<open>sendAPI\<close>: the upload of files, or the post of the message.\<close>

definition sendAPI_post :: "Env \<Rightarrow> Message \<Rightarrow> Channel \<Rightarrow> Bslack
    \<Rightarrow> (Panic + (string \<times> GoError option) \<times> Bslack) option" where
  "sendAPI_post E msg channelInfo b =
     (if 0 < Extra_len (msg_Extra msg)
      then
        (case sendAPI_extraMsgs E (env_HandleExtra E msg) channelInfo b of
           None \<Rightarrow> None
         | Some (Inl p) \<Rightarrow> Some (Inl p)
         | Some (Inr b') \<Rightarrow> Some (uploadFile E msg (ch_ID channelInfo) b'))
      else postAPIMessage E msg channelInfo b)"

definition sendAPI :: "Env \<Rightarrow> Message \<Rightarrow> Bslack
    \<Rightarrow> (Panic + (string \<times> GoError option) \<times> Bslack) option" where
  "sendAPI E msg b =
     (case handleGetChannelMembers E msg b of
        (True, b1) \<Rightarrow> Some (Inr (([], None), b1))
      | (False, b1) \<Rightarrow>
          (case env_getChannel E (msg_Channel msg) of
             Inl err \<Rightarrow> Some (Inr (([], Some (CouldNotSendMessage err)), b1))
           | Inr channelInfo \<Rightarrow>
               if msg_Event msg = EventUserTyping then Some (Inr (([], None), b1))
               else
                 (case handleTopicOrPurpose E msg channelInfo b1 of
                    None \<Rightarrow> None
                  | Some ((True, err), b2) \<Rightarrow> Some (Inr (([], err), b2))
                  | Some ((False, err), b2) \<Rightarrow>
                      (let msg1 = (if env_ParentNotFound E msg
                                   then msg\<lparr>msg_ParentID := [],
                                          msg_Text := ''[thread]: '' @ msg_Text msg\<rparr>
                                   else msg)
                       in
                       case deleteMessage E msg1 channelInfo b2 of
                         None \<Rightarrow> None
                       | Some ((True, err), b3) \<Rightarrow> Some (Inr ((msg_ID msg1, err), b3))
                       | Some ((False, err), b3) \<Rightarrow>
                           (let msg2 = (if GetBool b useNickPrefixConfig
                                        then msg1\<lparr>msg_Text := msg_Username msg1 @ msg_Text msg1\<rparr>
                                        else msg1)
                            in
                            case editMessage E msg2 channelInfo b3 of
                              None \<Rightarrow> None
                            | Some (Inl p) \<Rightarrow> Some (Inl p)
                            | Some (Inr ((True, err), b4)) \<Rightarrow>
                                Some (Inr ((msg_ID msg2, err), b4))
                            | Some (Inr ((False, err), b4)) \<Rightarrow>
                                sendAPI_post E msg2 channelInfo b4)))))"

text \<open>
  \<open>Send\<close>: the text is clipped and its code fences rewritten, an action is wrapped in
  underscores, and the message goes to the webhook sender or to the API sender.
\<close>

definition Send_text :: "Env \<Rightarrow> Bslack \<Rightarrow> Message \<Rightarrow> Message" where
  "Send_text E b msg =
     (let msg1 = msg\<lparr>msg_Text :=
            env_ClipMessage E (msg_Text msg) messageLength (GetString b ''MessageClipped'')\<rparr>;
          msg2 = msg1\<lparr>msg_Text := env_replaceCodeFence E (msg_Text msg1)\<rparr>
      in if msg_Event msg2 = EventUserAction
         then msg2\<lparr>msg_Text := ''_'' @ msg_Text msg2 @ ''_''\<rparr>
         else msg2)"

definition Send :: "Env \<Rightarrow> Message \<Rightarrow> Bslack
    \<Rightarrow> (Panic + (string \<times> GoError option) \<times> Bslack) option" where
  "Send E msg b =
     (if GetString b outgoingWebhookConfig \<noteq> [] \<and> GetString b tokenConfig = []
      then
        (case sendWebhook E (Send_text E b msg) b of
           Inl p \<Rightarrow> Some (Inl p)
         | Inr (err, b') \<Rightarrow> Some (Inr (([], err), b')))
      else sendAPI E (Send_text E b msg) b)"

subsection \<open>slack.go: newBridge, Connect and JoinChannel\<close>


text \<open>
  \<open>Connect\<close>, as far as the state goes: it fails when no connection method is
  configured and sets the platform client when a token is.
\<close>

definition Connect :: "Bslack \<Rightarrow> GoError option \<times> Bslack" where
  "Connect b =
     (if GetString b incomingWebhookConfig = [] \<and> GetString b outgoingWebhookConfig = []
         \<and> GetString b tokenConfig = []
      then (Some NoConnectionMethod, b)
      else if GetString b ''TokenBot'' \<noteq> [] then (None, b\<lparr>sc := True\<rparr>)
      else (None, b))"

text \<open>
  The legacy join attempt of \<open>JoinChannel\<close>: the error to return, if any. The
  \<open>switch\<close> on the error text has the cases "name_taken", "restricted_action" (empty
  body) and the string "default" (return the error); no case of the switch matches any
  other text.
\<close>

definition JoinChannel_legacy :: "Env \<Rightarrow> string \<Rightarrow> Bslack \<Rightarrow> Err option \<times> Bslack" where
  "JoinChannel_legacy E name b =
     (case env_JoinConversation E (length (calls b)) name of
        None \<Rightarrow> (None, called (CallJoinConversation name) b)
      | Some err \<Rightarrow>
          if Error_text err = ''name_taken'' \<or> Error_text err = ''restricted_action''
          then (None, called (CallJoinConversation name) b)
          else if Error_text err = ''default''
          then (Some err, called (CallJoinConversation name) b)
          else (None, called (CallJoinConversation name) b))"

text \<open>
  The rest of \<open>JoinChannel\<close>, from the refresh of the channel directory on: the
  resolution of the channel and the membership check.
\<close>

definition JoinChannel_resolve :: "Env \<Rightarrow> string \<Rightarrow> Bslack \<Rightarrow> GoError option \<times> Bslack" where
  "JoinChannel_resolve E name b =
     (let b2 = called (CallPopulateChannels False) b in
      case env_getChannel E name of
        Inl err \<Rightarrow> (Some (CouldNotJoinChannel err), b2)
      | Inr channelInfo \<Rightarrow>
          (let b3 = (if take 3 name = ''ID:'' then b2\<lparr>useChannelID := True\<rparr> else b2)
           in
           if \<not> ch_IsMember channelInfo \<and> \<not> legacy b
           then (Some (NotMemberOfChannel (ch_Name channelInfo)), b3)
           else (None, b3)))"

definition JoinChannel :: "Env \<Rightarrow> string \<Rightarrow> Bslack \<Rightarrow> GoError option \<times> Bslack" where
  "JoinChannel E name b =
     (if \<not> sc b then (None, b)
      else
        (case (if legacy b then JoinChannel_legacy E name b else (None, b)) of
           (Some err, b1) \<Rightarrow> (Some (Collab err), b1)
         | (None, b1) \<Rightarrow> JoinChannel_resolve E name b1))"

subsection \<open>slack.go: the events endpoint\<close>






subsection \<open>handlers.go: the file dedup check and the skip decision\<close>

text \<open>
  \<open>fileCached\<close>: the lookups move the entries they find to the front of the cache;
  the assertion \<open>ts.(time.Time)\<close> panics on a value that is not a timestamp.
\<close>

definition fileCached :: "Bslack \<Rightarrow> File \<Rightarrow> Panic + bool \<times> Bslack" where
  "fileCached b file =
     (case cache_Get (cache b) (''file'' @ file_ID file) of
        (Some (CString s), c1) \<Rightarrow> Inl TypeAssertion
      | (r1, c1) \<Rightarrow>
          if (case r1 of Some (CTime ts) \<Rightarrow> time_Since (clock b) ts < Minute | _ \<Rightarrow> False)
          then Inr (True, b\<lparr>cache := c1\<rparr>)
          else
            (case cache_Get c1 (''filename'' @ file_Name file) of
               (Some (CString s), c2) \<Rightarrow> Inl TypeAssertion
             | (r2, c2) \<Rightarrow>
                 if (case r2 of Some (CTime ts) \<Rightarrow> time_Since (clock b) ts < 10 * Second
                     | _ \<Rightarrow> False)
                 then Inr (True, b\<lparr>cache := c2\<rparr>)
                 else Inr (False, b\<lparr>cache := c2\<rparr>)))"

fun filesCached :: "Bslack \<Rightarrow> File list \<Rightarrow> Panic + bool \<times> Bslack" where
  "filesCached b [] = Inr (True, b)"
| "filesCached b (f # fs) =
     (case fileCached b f of
        Inl p \<Rightarrow> Inl p
      | Inr (False, b') \<Rightarrow> Inr (False, b')
      | Inr (True, b') \<Rightarrow> filesCached b' fs)"

text \<open>
  The check of the callback ID on the single block of a block set: the block is a
  section block and its ID is our tag.
\<close>

definition ourCallbackID :: "Bslack \<Rightarrow> Block \<Rightarrow> bool" where
  "ourCallbackID b block =
     (case block of
        SectionBlock bid \<Rightarrow> bid = ''matterbridge_'' @ uuid b
      | OtherBlock bid \<Rightarrow> False)"

text \<open>The end of \<open>skipMessageEvent\<close>, from the slackbot check on.\<close>

definition skipMessageEvent_rest :: "Bslack \<Rightarrow> MessageEvent \<Rightarrow> bool
    \<Rightarrow> Panic + bool \<times> Bslack" where
  "skipMessageEvent_rest b ev hasOurCallbackID =
     (if ev_Username ev = sSlackBotUser \<or> hasOurCallbackID
      then Inr (True, b)
      else if 0 < length (ev_Files ev)
      then filesCached b (ev_Files ev)
      else Inr (False, b))"

text \<open>
  The \<open>switch\<close> on the subtype at the head of \<open>skipMessageEvent\<close>: the value it
  returns, or \<open>None\<close> when control leaves the switch.
\<close>

definition skipMessageEvent_switch :: "Bslack \<Rightarrow> MessageEvent \<Rightarrow> bool option" where
  "skipMessageEvent_switch b ev =
     (if ev_SubType ev = sChannelLeave \<or> ev_SubType ev = sChannelJoin
      then Some (GetBool b noSendJoinConfig)
      else if ev_SubType ev = sPinnedItem \<or> ev_SubType ev = sUnpinnedItem
      then Some True
      else if ev_SubType ev = sChannelTopic \<or> ev_SubType ev = sChannelPurpose
      then (if ev_User ev = [] \<or> ev_User ev = sSlackBotUser then Some True else None)
      else None)"

definition skipMessageEvent :: "Bslack \<Rightarrow> MessageEvent \<Rightarrow> Panic + bool \<times> Bslack" where
  "skipMessageEvent b ev =
     (case skipMessageEvent_switch b ev of
        Some r \<Rightarrow> Inr (r, b)
      | None \<Rightarrow>
        (let hasOurCallbackID =
               (if length (ev_Blocks ev) = 1 then ourCallbackID b (hd (ev_Blocks ev))
                else False)
         in
         case ev_SubMessage ev of
           None \<Rightarrow> skipMessageEvent_rest b ev hasOurCallbackID
         | Some sub \<Rightarrow>
             if sub_ThreadTimestamp sub \<noteq> sub_Timestamp sub \<and> sub_Edited sub = None
             then Inr (True, b)
             else if ev_SubType ev = ''message_replied'' \<and> ev_Hidden ev
             then Inr (True, b)
             else skipMessageEvent_rest b ev
                    (if length (sub_Blocks sub) = 1
                     then ourCallbackID b (hd (sub_Blocks sub))
                     else hasOurCallbackID)))"

subsection \<open>handlers.go: classification, attachments and file download\<close>

definition handleStatusEvent :: "MessageEvent \<Rightarrow> Message \<Rightarrow> Bslack
    \<Rightarrow> Panic + (bool \<times> Message) \<times> Bslack" where
  "handleStatusEvent ev rmsg b =
     (if ev_SubType ev = sChannelJoined \<or> ev_SubType ev = sMemberJoined
      then Inr ((True, rmsg), b)
      else if ev_SubType ev = sChannelJoin \<or> ev_SubType ev = sChannelLeave
      then Inr ((False, rmsg\<lparr>msg_Username := sSystemUser, msg_Event := EventJoinLeave\<rparr>), b)
      else if ev_SubType ev = sChannelTopic \<or> ev_SubType ev = sChannelPurpose
      then Inr ((False, rmsg\<lparr>msg_Event := EventTopicChange\<rparr>),
                called (CallPopulateChannels False) b)
      else if ev_SubType ev = sMessageChanged
      then
        (case ev_SubMessage ev of
           None \<Rightarrow> Inl NilDereference
         | Some sub \<Rightarrow>
             if sub_Text sub = ''This message was deleted.''
             then Inr ((True, rmsg\<lparr>msg_Text := sub_Text sub, msg_Event := EventMsgDelete\<rparr>), b)
             else Inr ((False, rmsg\<lparr>msg_Text := sub_Text sub\<rparr>), b))
      else if ev_SubType ev = sMessageDeleted
      then Inr ((True, rmsg\<lparr>msg_Text := EventMsgDelete, msg_Event := EventMsgDelete,
                          msg_ID := ev_DeletedTimestamp ev\<rparr>), b)
      else if ev_SubType ev = sMeMessage
      then Inr ((False, rmsg\<lparr>msg_Event := EventUserAction\<rparr>), b)
      else Inr ((False, rmsg), b))"

definition getMessageTitle :: "Attachment \<Rightarrow> string" where
  "getMessageTitle attach =
     (if att_TitleLink attach \<noteq> []
      then ''['' @ att_Title attach @ ''](''  @ att_TitleLink attach @ '')'' @ [CHR 0x0A]
      else att_Title attach)"

text \<open>
  The loop of \<open>handleAttachments\<close> over the attachments, on the text of the message
  so far.
\<close>

fun handleAttachments_text :: "Attachment list \<Rightarrow> string \<Rightarrow> string" where
  "handleAttachments_text [] text = text"
| "handleAttachments_text (attach # rest) text =
     handleAttachments_text rest
       (if att_Text attach \<noteq> []
        then
          (let text1 = (if att_Title attach \<noteq> [] then getMessageTitle attach else text);
               text2 = text1 @ att_Text attach
           in if att_Footer attach \<noteq> []
              then text2 @ [CHR 0x0A, CHR 0x0A] @ att_Footer attach
              else text2)
        else att_Fallback attach)"

text \<open>
  \<open>handleDownloadFile\<close>: the result is the error returned, if any, and the message
  as the call leaves it. The second attempt is the recursive call with
  \<open>retry = true\<close>, after a sleep of one second.
\<close>

function handleDownloadFile :: "Env \<Rightarrow> Message \<Rightarrow> File \<Rightarrow> bool \<Rightarrow> Bslack
    \<Rightarrow> Panic + (GoError option \<times> Message) \<times> Bslack" where
  "handleDownloadFile E rmsg file retry b =
     (case fileCached b file of
        Inl p \<Rightarrow> Inl p
      | Inr (True, b1) \<Rightarrow> Inr ((None, rmsg), b1)
      | Inr (False, b1) \<Rightarrow>
          (case env_HandleDownloadSize E rmsg (file_Name file) (file_Size file) of
             (Some err, rmsg1) \<Rightarrow> Inr ((None, rmsg1), b1)
           | (None, rmsg1) \<Rightarrow>
               (let b2 = called (CallDownloadFileAuth (file_URLPrivateDownload file)
                                   (''Bearer '' @ GetString b tokenConfig)) b1
                in
                case env_DownloadFileAuth E (length (calls b1)) (file_URLPrivateDownload file)
                       (''Bearer '' @ GetString b tokenConfig) of
                  Inl err \<Rightarrow>
                    Inr ((Some (DownloadFailed (file_URLPrivateDownload file) err), rmsg1), b2)
                | Inr data \<Rightarrow>
                    if int (length data) \<noteq> file_Size file \<and> \<not> retry
                    then handleDownloadFile E rmsg1 file True (time_Sleep (1 * Second) b2)
                    else
                      Inr ((None,
                            env_HandleDownloadData2 E (rmsg1\<lparr>msg_Text := []\<rparr>) (file_Name file)
                              (file_ID file) (msg_Text rmsg1) (file_URLPrivateDownload file) data),
                           b2))))"
  by pat_completeness auto
termination
  by (relation "measure (\<lambda>(E, rmsg, file, retry, b). if retry then 0 else 1)") auto

declare handleDownloadFile.simps [simp del]

text \<open>
  The loop of \<open>handleAttachments\<close> over the files: the channel of the file is
  recorded, and an error of the download is logged, not returned.
\<close>

fun handleAttachments_files :: "Env \<Rightarrow> MessageEvent \<Rightarrow> File list \<Rightarrow> Message \<Rightarrow> Bslack
    \<Rightarrow> Panic + Message \<times> Bslack" where
  "handleAttachments_files E ev [] rmsg b = Inr (rmsg, b)"
| "handleAttachments_files E ev (file # rest) rmsg b =
     (case handleDownloadFile E rmsg file False
             (b\<lparr>cache := cache_Add (cache b) (cfileDownloadChannel @ file_ID file)
                            (CString (ev_Channel ev))\<rparr>) of
        Inl p \<Rightarrow> Inl p
      | Inr ((err, rmsg1), b1) \<Rightarrow> handleAttachments_files E ev rest rmsg1 b1)"

definition handleAttachments :: "Env \<Rightarrow> MessageEvent \<Rightarrow> Message \<Rightarrow> Bslack
    \<Rightarrow> Panic + Message \<times> Bslack" where
  "handleAttachments E ev rmsg b =
     (let rmsg1 = (if ev_SubType ev = sFileComment
                   then rmsg\<lparr>msg_Username := sSystemUser\<rparr> else rmsg);
          rmsg2 = (if msg_Text rmsg1 = []
                   then rmsg1\<lparr>msg_Text :=
                          handleAttachments_text (ev_Attachments ev) (msg_Text rmsg1)\<rparr>
                   else rmsg1)
      in
      case (if 0 < length (ev_Attachments ev)
            then (case Extra_set (msg_Extra rmsg2) sSlackAttachment
                         (Extra_get (msg_Extra rmsg2) sSlackAttachment
                            @ [PAttachments (ev_Attachments ev)]) of
                    Inl p \<Rightarrow> Inl p
                  | Inr extra \<Rightarrow> Inr (rmsg2\<lparr>msg_Extra := extra\<rparr>))
            else Inr rmsg2) of
        Inl p \<Rightarrow> Inl p
      | Inr rmsg3 \<Rightarrow> handleAttachments_files E ev (ev_Files ev) rmsg3 b)"

definition handleMessageEvent :: "Env \<Rightarrow> MessageEvent \<Rightarrow> Bslack
    \<Rightarrow> Panic + (GoError + Message) \<times> Bslack" where
  "handleMessageEvent E ev b =
     (case env_populateReceivedMessage E ev of
        Inl err \<Rightarrow> Inr (Inl (Collab err), b)
      | Inr rmsg \<Rightarrow>
          (case handleStatusEvent ev rmsg b of
             Inl p \<Rightarrow> Inl p
           | Inr ((True, rmsg1), b1) \<Rightarrow> Inr (Inr rmsg1, b1)
           | Inr ((False, rmsg1), b1) \<Rightarrow>
               (case handleAttachments E ev rmsg1 b1 of
                  Inl p \<Rightarrow> Inl p
                | Inr (rmsg2, b2) \<Rightarrow>
                    if length (ev_Files ev) = 0
                       \<and> (msg_Text rmsg2 = [] \<or> msg_Username rmsg2 = [])
                    then
                      (if ev_BotID ev \<noteq> [] then Inr (Inl EmptyBotMessage, b2)
                       else if ev_SubMessage ev \<noteq> None
                       then Inr (Inl EmptyMessageWithSubmessage, b2)
                       else Inr (Inl EmptyMessage, b2))
                    else Inr (Inr rmsg2, b2))))"


subsection \<open>Notions used to state the properties\<close>

text \<open>The cache holds a channel ID, not a timestamp, under a key.\<close>

definition holdsChannel :: "(string \<times> CacheVal) list \<Rightarrow> string \<Rightarrow> bool" where
  "holdsChannel c k = (case map_of c k of Some (CString s) \<Rightarrow> True | _ \<Rightarrow> False)"

text \<open>The cache holds, under a key, a timestamp younger than a time to live.\<close>

definition markerFresh :: "Bslack \<Rightarrow> string \<Rightarrow> Duration \<Rightarrow> bool" where
  "markerFresh b k ttl =
     (case map_of (cache b) k of
        Some (CTime ts) \<Rightarrow> time_Since (clock b) ts < ttl
      | _ \<Rightarrow> False)"

text \<open>The error of an answer of the platform, if it is one.\<close>

definition failure :: "Err + 'a \<Rightarrow> Err option" where
  "failure r = (case r of Inl e \<Rightarrow> Some e | Inr v \<Rightarrow> None)"

text \<open>
  The answers number \<open>k\<close>, \<open>k + 1\<close>, ... of the platform are rate-limit errors whose
  suggested waits are the elements of \<open>ws\<close>, in this order.
\<close>

fun rateLimitedFrom :: "(nat \<Rightarrow> Err option) \<Rightarrow> nat \<Rightarrow> Duration list \<Rightarrow> bool" where
  "rateLimitedFrom answer k [] = True"
| "rateLimitedFrom answer k (w # ws) =
     ((case answer k of Some e \<Rightarrow> RetryAfter e = Some w | None \<Rightarrow> False)
      \<and> rateLimitedFrom answer (Suc k) ws)"

text \<open>
  The state after the call \<open>c\<close> has been made and has failed once for each element
  of \<open>ws\<close>, each failure followed by a sleep of the wait it suggests: one record of
  the call for each attempt, and the sum of the waits on the clock.
\<close>

definition retried :: "Call \<Rightarrow> Duration list \<Rightarrow> Bslack \<Rightarrow> Bslack" where
  "retried c ws b =
     b\<lparr>clock := clock b + sum_list (map (max 0) ws),
       slept := slept b + sum_list (map (max 0) ws),
       calls := calls b @ replicate (length ws) c\<rparr>"

text \<open>
  A retry loop around the call \<open>c\<close> returns in state \<open>b'\<close> after the waits \<open>ws\<close>:
  the first answers are rate-limit errors with these waits, the answer after them is a
  success or an error that is not a rate-limit error, and \<open>b'\<close> is the state after
  these attempts, their sleeps and the last attempt.
\<close>

definition returnsAfterRetries :: "(nat \<Rightarrow> Err option) \<Rightarrow> Call \<Rightarrow> Bslack \<Rightarrow> Duration list
    \<Rightarrow> Bslack \<Rightarrow> bool" where
  "returnsAfterRetries answer c b ws b' =
     (rateLimitedFrom answer (length (calls b)) ws
      \<and> (case answer (length (calls b) + length ws) of
           None \<Rightarrow> True
         | Some e \<Rightarrow> RetryAfter e = None)
      \<and> b' = called c (retried c ws b))"

text \<open>What \<open>postAPIMessage\<close> returns for the last answer of the platform.\<close>

definition postAPIMessage_result :: "Err + string \<Rightarrow> string \<times> GoError option" where
  "postAPIMessage_result r =
     (case r of Inr newID \<Rightarrow> (newID, None) | Inl e \<Rightarrow> ([], Some (Collab e)))"

text \<open>The call of \<open>updateTopicOrPurpose\<close> for a kind of change, and its answer.\<close>

definition updateTopicOrPurpose_call :: "string \<Rightarrow> string \<Rightarrow> string \<Rightarrow> Call" where
  "updateTopicOrPurpose_call incomingChangeType channelID text =
     (if incomingChangeType = ''topic'' then CallSetTopicOfConversation channelID text
      else CallSetPurposeOfConversation channelID text)"

definition updateTopicOrPurpose_answer :: "Env \<Rightarrow> string \<Rightarrow> string \<Rightarrow> string \<Rightarrow> nat \<Rightarrow> Err option" where
  "updateTopicOrPurpose_answer E incomingChangeType channelID text n =
     (if incomingChangeType = ''topic'' then env_SetTopicOfConversation E n channelID text
      else env_SetPurposeOfConversation E n channelID text)"

text \<open>The text of the message a handler leaves, when it does not panic.\<close>

definition textOf :: "Panic + Message \<times> Bslack \<Rightarrow> Panic + string" where
  "textOf r = (case r of Inl p \<Rightarrow> Inl p | Inr (rmsg, b) \<Rightarrow> Inr (msg_Text rmsg))"

text \<open>
  The download call of \<open>handleDownloadFile\<close> for a file, the answer to it when it
  is the call number \<open>n\<close>, and the message after the downloaded data has been handed
  to \<open>HandleDownloadData2\<close>.
\<close>

definition downloadCall :: "Bslack \<Rightarrow> File \<Rightarrow> Call" where
  "downloadCall b file =
     CallDownloadFileAuth (file_URLPrivateDownload file) (''Bearer '' @ GetString b tokenConfig)"

definition downloadAnswer :: "Env \<Rightarrow> Bslack \<Rightarrow> File \<Rightarrow> nat \<Rightarrow> Err + string" where
  "downloadAnswer E b file n =
     env_DownloadFileAuth E n (file_URLPrivateDownload file)
       (''Bearer '' @ GetString b tokenConfig)"

definition downloadedInto :: "Env \<Rightarrow> Message \<Rightarrow> File \<Rightarrow> string \<Rightarrow> Message" where
  "downloadedInto E rmsg file data =
     env_HandleDownloadData2 E (rmsg\<lparr>msg_Text := []\<rparr>) (file_Name file) (file_ID file)
       (msg_Text rmsg) (file_URLPrivateDownload file) data"

text \<open>
  A call to the webhook client; and: from state \<open>b\<close> to state \<open>b'\<close> the calls made
  are all of one kind (the calls of \<open>b\<close> are kept, those added satisfy \<open>P\<close>).
\<close>

definition isWebhookCall :: "Call \<Rightarrow> bool" where
  "isWebhookCall c = (case c of CallWebhookSend m \<Rightarrow> True | _ \<Rightarrow> False)"

definition isPlatformCall :: "Call \<Rightarrow> bool" where
  "isPlatformCall c = (\<not> isWebhookCall c)"

definition callsOnly :: "(Call \<Rightarrow> bool) \<Rightarrow> Bslack \<Rightarrow> Bslack \<Rightarrow> bool" where
  "callsOnly P b b' =
     (take (length (calls b)) (calls b') = calls b
      \<and> list_all P (drop (length (calls b)) (calls b')))"



subsection \<open>Concrete inputs\<close>

text \<open>A bridge instance with tag \<open>matterbridge_abc\<close>, an empty cache and every option unset.\<close>

definition bridge0 :: Bslack where
  "bridge0 = \<lparr>uuid = ''abc'', legacy = False, sc = True, useChannelID = False,
     cache = [], GetString = (\<lambda>k. []), GetBool = (\<lambda>k. False), Account = ''slack.test'',
     clock = 0, slept = 0, calls = [], remote = []\<rparr>"

text \<open>A plain message event without content.\<close>

definition event0 :: MessageEvent where
  "event0 = \<lparr>ev_SubType = [], ev_User = ''U1'', ev_Username = ''alice'', ev_BotID = [],
     ev_Text = [], ev_Channel = ''C1'', ev_Hidden = False, ev_DeletedTimestamp = [],
     ev_Blocks = [], ev_SubMessage = None, ev_Attachments = [], ev_Files = []\<rparr>"

definition submsg0 :: SubMsg where
  "submsg0 = \<lparr>sub_Text = ''hi'', sub_Timestamp = ''1'', sub_ThreadTimestamp = ''1'',
     sub_Edited = None, sub_Blocks = []\<rparr>"

text \<open>The event wrapper at its zero value, as an undecodable body leaves it.\<close>

definition wrapper0 :: EventWrapper where
  "wrapper0 = \<lparr>evt_Type = [], evt_Challenge = [], evt_Event_Type = [],
     evt_Event_SubType = [], evt_Event_User = [], evt_Event_Text = [],
     evt_Event_Channel = [], evt_Event_Ts = [], evt_Event_DeletedTs = []\<rparr>"

text \<open>
  Collaborators that accept everything: every channel resolves to a channel the adapter
  is a member of, every platform call succeeds, the helpers leave texts as they are.
\<close>

definition env0 :: Env where
  "env0 = \<lparr>env_ClipMessage = (\<lambda>text n clipped. text),
     env_replaceCodeFence = (\<lambda>text. text),
     env_ParentNotFound = (\<lambda>msg. False),
     env_getChannel = (\<lambda>name. Inr \<lparr>ch_ID = ''C1'', ch_Name = name, ch_IsMember = True\<rparr>),
     env_getChannelByID = (\<lambda>cid. Inr \<lparr>ch_ID = cid, ch_Name = ''general'', ch_IsMember = True\<rparr>),
     env_getChannelMembers = PMembers ''roster'',
     env_HandleExtra = (\<lambda>msg. []),
     env_GetIconURL = (\<lambda>msg url. url),
     env_extractTopicOrPurpose = (\<lambda>text. (''topic'', text)),
     env_populateReceivedMessage = (\<lambda>ev. Inr \<lparr>msg_Text = ev_Text ev, msg_Channel = ''general'',
        msg_Username = ev_Username ev, msg_UserID = ev_User ev, msg_Avatar = [],
        msg_Account = ''slack.test'', msg_Event = [], msg_Protocol = ''slack'', msg_ID = [],
        msg_ParentID = [], msg_Extra = Some []\<rparr>),
     env_HandleDownloadSize = (\<lambda>rmsg name size. (None, rmsg)),
     env_HandleDownloadData2 = (\<lambda>rmsg name fid comment url data.
        rmsg\<lparr>msg_Extra := Some [(''file'', [PFileInfo \<lparr>fi_Name = name, fi_Data = Some data,
           fi_Comment = comment, fi_URL = url, fi_Size = int (length data)\<rparr>])]\<rparr>),
     env_PostMessage = (\<lambda>n channelID opts. Inr ''1700000000.000100''),
     env_UpdateMessage = (\<lambda>n channelID ts opts. None),
     env_DeleteMessage = (\<lambda>n channelID ts. None),
     env_SetTopicOfConversation = (\<lambda>n channelID topic. None),
     env_SetPurposeOfConversation = (\<lambda>n channelID purpose. None),
     env_UploadFile = (\<lambda>n params. Inr \<lparr>res_ID = ''F1'', res_SharesPrivate = [],
        res_SharesPublic = []\<rparr>),
     env_JoinConversation = (\<lambda>n name. None),
     env_GetUserInfo = (\<lambda>n user. Inr ''Alice''),
     env_WebhookSend = (\<lambda>n m. None),
     env_DownloadFileAuth = (\<lambda>n url auth. Inr ''abc''),
     env_parseEnvelope = (\<lambda>body. wrapper0),
     env_parseChallenge = (\<lambda>body. Inr [])\<rparr>"

definition file0 :: File where
  "file0 = \<lparr>file_ID = ''F1'', file_Name = ''a.png'', file_Size = 3,
     file_URLPrivateDownload = ''https://files/a.png''\<rparr>"

definition fileinfo0 :: FileInfo where
  "fileinfo0 = \<lparr>fi_Name = ''a.png'', fi_Data = Some ''abc'', fi_Comment = [], fi_URL = [],
     fi_Size = 3\<rparr>"

definition attachment0 :: Attachment where
  "attachment0 = \<lparr>att_Fallback = [], att_Color = [], att_Pretext = [], att_AuthorName = [],
     att_AuthorLink = [], att_AuthorIcon = [], att_Title = [], att_TitleLink = [],
     att_Text = [], att_ImageURL = [], att_ThumbURL = [], att_Footer = [],
     att_FooterIcon = []\<rparr>"

text \<open>A message from bob that carries one file.\<close>

definition message_file :: Message where
  "message_file = Message_zero\<lparr>msg_Username := ''bob'', msg_Channel := ''general'',
     msg_Extra := Some [(''file'', [PFileInfo fileinfo0])]\<rparr>"

text \<open>
  A platform that rejects the first two calls with rate-limit errors, suggesting waits
  of one and two seconds, and accepts every later call.
\<close>

definition env_ratelimited :: Env where
  "env_ratelimited = env0\<lparr>env_PostMessage :=
     (\<lambda>n channelID opts.
        if n < 2 then Inl (Err ''slack rate limit exceeded'' (Some ((int n + 1) * Second)))
        else Inr ''1700000000.000100'')\<rparr>"

definition options0 :: MsgOptions where
  "options0 = \<lparr>opt_Text = ''hello'', opt_BlockText = ''hello'',
     opt_BlockID = ''matterbridge_abc'', opt_EnableLinkUnfurl = True, opt_Attachments = [],
     opt_AsUser = False, opt_Username = ''bob'', opt_LinkNames = 1, opt_IconURL = [],
     opt_ThreadTimestamp = []\<rparr>"

text \<open>A populated message without text, and an event with two attachments.\<close>

definition message_empty :: Message where
  "message_empty = Message_zero\<lparr>msg_Username := ''alice'', msg_Channel := ''general'',
     msg_Extra := Some []\<rparr>"

definition event_attachments :: "string \<Rightarrow> MessageEvent" where
  "event_attachments fallback = event0\<lparr>ev_Attachments :=
     [attachment0\<lparr>att_Fallback := fallback\<rparr>, attachment0\<lparr>att_Text := ''B''\<rparr>]\<rparr>"

text \<open>A download that always delivers two bytes, for a file declared with three.\<close>

definition env_short_download :: Env where
  "env_short_download = env0\<lparr>env_DownloadFileAuth := (\<lambda>n url auth. Inr ''ab'')\<rparr>"


text \<open>
  A bridge with only an outgoing webhook URL, one with only a bot token, and one that
  prefixes messages with the nickname; a message "hi" from bob and a message without text.
\<close>

definition bridge_webhook :: Bslack where
  "bridge_webhook = bridge0\<lparr>GetString :=
     (\<lambda>k. if k = ''WebhookURL'' then ''https://hooks.example/T1'' else [])\<rparr>"

definition bridge_token :: Bslack where
  "bridge_token = bridge0\<lparr>GetString :=
     (\<lambda>k. if k = ''TokenBot'' then ''xoxb-1'' else
          if k = ''WebhookURL'' then ''https://hooks.example/T1'' else [])\<rparr>"


definition message_hi :: Message where
  "message_hi = Message_zero\<lparr>msg_Text := ''hi'', msg_Username := ''bob'',
     msg_Channel := ''general''\<rparr>"





section \<open>The cache\<close>

lemma map_of_filter_neq: "map_of (filter (\<lambda>p. fst p \<noteq> k) c) k' = (if k' = k then None else map_of c k')"
  by (induction c) auto

lemma cache_Get_fst: "fst (cache_Get c k) = map_of c k"
  by (simp add: cache_Get_def split: option.splits)

lemma cache_Get_map_of: "map_of (snd (cache_Get c k)) k' = map_of c k'"
  by (auto simp: cache_Get_def map_of_filter_neq split: option.splits)

lemma map_of_butlast:
  "map_of (butlast ((k, v) # c)) k = Some v" if "c \<noteq> []"
  using that by (cases c) auto

lemma cache_Add_same: "map_of (cache_Add c k v) k = Some v"
proof (cases "map_of c k")
  case None
  show ?thesis
  proof (cases "cacheSize < Suc (length c)")
    case True
    then have "c \<noteq> []" by (auto simp: cacheSize_def)
    with None True show ?thesis by (simp add: cache_Add_def Let_def)
  next
    case False
    with None show ?thesis by (simp add: cache_Add_def Let_def)
  qed
next
  case (Some a)
  then show ?thesis by (simp add: cache_Add_def)
qed

lemma map_of_butlast_cases:
  "map_of (butlast c) k' = map_of c k' \<or> map_of (butlast c) k' = None"
proof (induction c)
  case Nil
  then show ?case by simp
next
  case (Cons p c)
  then show ?case by (cases c) auto
qed

lemma cache_Add_other:
  "k' \<noteq> k \<Longrightarrow> map_of (cache_Add c k v) k' = map_of c k' \<or> map_of (cache_Add c k v) k' = None"
  using map_of_butlast_cases [of "(k, v) # c" k']
  by (auto simp: cache_Add_def Let_def map_of_filter_neq split: option.splits)

lemma map_of_butlast2:
  "map_of (butlast (p # (k, v) # c)) k = map_of (p # (k, v) # c) k" if "c \<noteq> []"
  using that by (cases c) auto

lemma cache_Add_hd: "\<exists>r. cache_Add c k v = (k, v) # r"
proof (cases "map_of c k")
  case None
  show ?thesis
  proof (cases "cacheSize < Suc (length c)")
    case True
    then have "c \<noteq> []" by (auto simp: cacheSize_def)
    with None True show ?thesis by (simp add: cache_Add_def Let_def)
  next
    case False
    with None show ?thesis by (simp add: cache_Add_def Let_def)
  qed
next
  case (Some a)
  then show ?thesis by (simp add: cache_Add_def)
qed

lemma cache_Add_twice:
  assumes "k2 \<noteq> k1"
  shows "map_of (cache_Add (cache_Add c k1 v1) k2 v2) k1 = Some v1"
proof -
  from cache_Add_hd obtain r where r: "cache_Add c k1 v1 = (k1, v1) # r" by blast
  show ?thesis
  proof (cases "map_of ((k1, v1) # r) k2")
    case (Some a)
    with assms show ?thesis unfolding r by (simp add: cache_Add_def)
  next
    case None
    show ?thesis
    proof (cases "cacheSize < Suc (Suc (length r))")
      case True
      then have "r \<noteq> []" by (auto simp: cacheSize_def)
      with None True assms show ?thesis unfolding r
        by (simp add: cache_Add_def Let_def)
    next
      case False
      with None assms show ?thesis unfolding r by (simp add: cache_Add_def Let_def)
    qed
  qed
qed

lemma fileCached_eq:
  "fileCached b f =
     (if holdsChannel (cache b) (''file'' @ file_ID f) then Inl TypeAssertion
      else if markerFresh b (''file'' @ file_ID f) Minute
      then Inr (True, b\<lparr>cache := snd (cache_Get (cache b) (''file'' @ file_ID f))\<rparr>)
      else if holdsChannel (cache b) (''filename'' @ file_Name f) then Inl TypeAssertion
      else Inr (markerFresh b (''filename'' @ file_Name f) (10 * Second),
                b\<lparr>cache := snd (cache_Get (snd (cache_Get (cache b) (''file'' @ file_ID f)))
                                  (''filename'' @ file_Name f))\<rparr>))"
proof -
  obtain r1 c1 where g1: "cache_Get (cache b) (''file'' @ file_ID f) = (r1, c1)"
    by (cases "cache_Get (cache b) (''file'' @ file_ID f)")
  obtain r2 c2 where g2: "cache_Get c1 (''filename'' @ file_Name f) = (r2, c2)"
    by (cases "cache_Get c1 (''filename'' @ file_Name f)")
  from g1 have r1: "r1 = map_of (cache b) (''file'' @ file_ID f)"
    using cache_Get_fst [of "cache b" "''file'' @ file_ID f"] by simp
  from g1 g2 have r2: "r2 = map_of (cache b) (''filename'' @ file_Name f)"
    using cache_Get_fst [of c1 "''filename'' @ file_Name f"]
      cache_Get_map_of [of "cache b" "''file'' @ file_ID f" "''filename'' @ file_Name f"]
    by simp
  have c1: "snd (cache_Get (cache b) (''file'' @ file_ID f)) = c1"
    using g1 by simp
  have c2: "snd (cache_Get c1 (''filename'' @ file_Name f)) = c2"
    using g2 by simp
  have lhs: "fileCached b f =
     (case r1 of
        Some (CString s) \<Rightarrow> Inl TypeAssertion
      | _ \<Rightarrow>
        if (case r1 of Some (CTime ts) \<Rightarrow> time_Since (clock b) ts < Minute | _ \<Rightarrow> False)
        then Inr (True, b\<lparr>cache := c1\<rparr>)
        else (case r2 of
                Some (CString s) \<Rightarrow> Inl TypeAssertion
              | _ \<Rightarrow> Inr ((case r2 of Some (CTime ts) \<Rightarrow> time_Since (clock b) ts < 10 * Second
                               | _ \<Rightarrow> False), b\<lparr>cache := c2\<rparr>)))"
    unfolding fileCached_def g1
    apply (simp only: prod.case)
    apply (simp only: g2 prod.case)
    apply (cases r1; cases r2)
    apply simp_all
    subgoal for a by (cases a) simp_all
    subgoal for a by (cases a) simp_all
    subgoal for a a' by (cases a; cases a') simp_all
    done
  show ?thesis
    unfolding lhs c1 c2 holdsChannel_def markerFresh_def r1 [symmetric] r2 [symmetric]
    apply (cases r1; cases r2)
    apply simp_all
    subgoal for a by (cases a) simp_all
    subgoal for a by (cases a) simp_all
    subgoal for a a' by (cases a; cases a') simp_all
    done
qed

lemma time_Since_mono: "now \<le> now' \<Longrightarrow> time_Since now t \<le> time_Since now' t"
  by (auto simp: time_Since_def Let_def minDuration_def maxDuration_def)

lemma holdsChannel_cong:
  "(\<And>k. map_of c' k = map_of c k) \<Longrightarrow> holdsChannel c' k = holdsChannel c k"
  by (simp add: holdsChannel_def)

lemma markerFresh_later:
  assumes same: "\<And>k. map_of (cache b') k = map_of (cache b) k"
    and later: "clock b \<le> clock b'"
    and fresh: "markerFresh b' k ttl"
  shows "markerFresh b k ttl"
proof (cases "map_of (cache b) k")
  case None
  with fresh same show ?thesis by (simp add: markerFresh_def)
next
  case (Some v)
  show ?thesis
  proof (cases v)
    case (CTime ts)
    with Some fresh same have "time_Since (clock b') ts < ttl"
      by (simp add: markerFresh_def)
    with time_Since_mono [OF later, of ts] have "time_Since (clock b) ts < ttl"
      by linarith
    with Some CTime show ?thesis by (simp add: markerFresh_def)
  next
    case (CString s)
    with Some fresh same show ?thesis by (simp add: markerFresh_def)
  qed
qed

lemma fileCached_state:
  assumes "fileCached b f = Inr (r, b1)"
  shows "\<exists>c. b1 = b\<lparr>cache := c\<rparr> \<and> (\<forall>k. map_of c k = map_of (cache b) k)"
  using assms unfolding fileCached_eq
  by (auto simp: cache_Get_map_of split: if_splits)

lemma fileCached_False:
  assumes "fileCached b f = Inr (False, b1)"
  shows "\<not> holdsChannel (cache b) (''file'' @ file_ID f)
     \<and> \<not> markerFresh b (''file'' @ file_ID f) Minute
     \<and> \<not> holdsChannel (cache b) (''filename'' @ file_Name f)
     \<and> \<not> markerFresh b (''filename'' @ file_Name f) (10 * Second)"
  using assms unfolding fileCached_eq
  by (auto split: if_splits)

lemma fileCached_later:
  assumes first: "fileCached b f = Inr (False, b1)"
    and same: "\<And>k. map_of (cache b') k = map_of (cache b) k"
    and later: "clock b \<le> clock b'"
  shows "\<exists>c. fileCached b' f = Inr (False, b'\<lparr>cache := c\<rparr>)"
proof -
  note F = fileCached_False [OF first]
  from F same have h1: "\<not> holdsChannel (cache b') (''file'' @ file_ID f)"
    and h2: "\<not> holdsChannel (cache b') (''filename'' @ file_Name f)"
    by (simp_all add: holdsChannel_def)
  from F markerFresh_later [OF same later]
  have m1: "\<not> markerFresh b' (''file'' @ file_ID f) Minute"
    and m2: "\<not> markerFresh b' (''filename'' @ file_Name f) (10 * Second)"
    by blast+
  from h1 h2 m1 m2 show ?thesis
    by (subst fileCached_eq) auto
qed

section \<open>The self-echo check of skipMessageEvent\<close>

lemma skipMessageEvent_switch_cases:
  "skipMessageEvent_switch b ev = None
   \<or> skipMessageEvent_switch b ev = Some True
   \<or> ((ev_SubType ev = sChannelLeave \<or> ev_SubType ev = sChannelJoin)
       \<and> skipMessageEvent_switch b ev = Some (GetBool b noSendJoinConfig))"
  by (simp add: skipMessageEvent_switch_def)

text \<open>
  Claim C1 as stated fails: a join or leave event returns the configured
  "nosendjoinpart" flag before any block is looked at. Here the event carries exactly
  one section block with this instance's tag, the flag is unset, and the event is not
  skipped.
\<close>

theorem skipMessageEvent_join_not_skipped:
  "ev_Blocks (event0\<lparr>ev_SubType := ''channel_join'',
       ev_Blocks := [SectionBlock (''matterbridge_'' @ uuid bridge0)]\<rparr>)
     = [SectionBlock (''matterbridge_'' @ uuid bridge0)]
   \<and> skipMessageEvent bridge0
        (event0\<lparr>ev_SubType := ''channel_join'',
           ev_Blocks := [SectionBlock (''matterbridge_'' @ uuid bridge0)]\<rparr>)
     = Inr (False, bridge0)"
  by (simp add: skipMessageEvent_def skipMessageEvent_switch_def bridge0_def event0_def
      slack_consts)

text \<open>
  The marker of a sub-event with exactly one block replaces the marker of the event:
  an event whose own single block carries the tag, with a sub-event whose single block
  does not, is not skipped either.
\<close>

lemma skipMessageEvent_submessage_marker_replaces:
  "skipMessageEvent bridge0
     (event0\<lparr>ev_Blocks := [SectionBlock (''matterbridge_'' @ uuid bridge0)],
        ev_SubMessage := Some (submsg0\<lparr>sub_Blocks := [SectionBlock ''other'']\<rparr>)\<rparr>)
     = Inr (False, bridge0)"
  by (simp add: skipMessageEvent_def skipMessageEvent_switch_def skipMessageEvent_rest_def
      ourCallbackID_def bridge0_def event0_def submsg0_def slack_consts)

text \<open>
  Claim C1, amended: an event that is not a join or leave event (or any event when
  join and leave events are suppressed by configuration) is skipped, with the state
  unchanged, when its sub-event carries exactly one block, a section block with this
  instance's tag, or when the event itself carries exactly one such block and there is
  no sub-event or the sub-event's block list does not have exactly one block. Nothing
  else of the event matters (subtype, user, files, hidden flag, timestamps).
\<close>

theorem skipMessageEvent_own_marker:
  assumes nojoin: "(ev_SubType ev \<noteq> sChannelLeave \<and> ev_SubType ev \<noteq> sChannelJoin)
           \<or> GetBool b noSendJoinConfig"
    and marker: "case ev_SubMessage ev of
           None \<Rightarrow> ev_Blocks ev = [SectionBlock (''matterbridge_'' @ uuid b)]
         | Some sub \<Rightarrow>
             sub_Blocks sub = [SectionBlock (''matterbridge_'' @ uuid b)]
             \<or> (length (sub_Blocks sub) \<noteq> 1
                 \<and> ev_Blocks ev = [SectionBlock (''matterbridge_'' @ uuid b)])"
  shows "skipMessageEvent b ev = Inr (True, b)"
proof -
  from skipMessageEvent_switch_cases [of b ev] nojoin
  consider (leaves) "skipMessageEvent_switch b ev = None"
    | (returns) "skipMessageEvent_switch b ev = Some True"
    by auto
  then show ?thesis
  proof cases
    case returns
    then show ?thesis by (simp add: skipMessageEvent_def)
  next
    case leaves
    show ?thesis
    proof (cases "ev_SubMessage ev")
      case None
      with marker have "ev_Blocks ev = [SectionBlock (''matterbridge_'' @ uuid b)]" by simp
      with None leaves show ?thesis
        by (simp add: skipMessageEvent_def skipMessageEvent_rest_def ourCallbackID_def)
    next
      case (Some sub)
      define H where "H = (if length (sub_Blocks sub) = 1
                     then ourCallbackID b (hd (sub_Blocks sub))
                     else (if length (ev_Blocks ev) = 1
                           then ourCallbackID b (hd (ev_Blocks ev)) else False))"
      from marker Some have H: "H"
        by (auto simp: H_def ourCallbackID_def)
      from Some leaves
      have "skipMessageEvent b ev =
            (if sub_ThreadTimestamp sub \<noteq> sub_Timestamp sub \<and> sub_Edited sub = None
             then Inr (True, b)
             else if ev_SubType ev = ''message_replied'' \<and> ev_Hidden ev
             then Inr (True, b)
             else skipMessageEvent_rest b ev H)"
        unfolding H_def by (simp add: skipMessageEvent_def Let_def)
      with H show ?thesis
        by (simp add: skipMessageEvent_rest_def)
    qed
  qed
qed

theorem skipMessageEvent_own_marker_witness:
  "skipMessageEvent bridge0
     (event0\<lparr>ev_SubType := ''message_changed'', ev_Files := [\<lparr>file_ID = ''F1'',
          file_Name = ''a.png'', file_Size = 3, file_URLPrivateDownload = ''u''\<rparr>],
        ev_SubMessage := Some (submsg0\<lparr>sub_Blocks := [SectionBlock ''matterbridge_abc'']\<rparr>)\<rparr>)
     = Inr (True, bridge0)"
  using skipMessageEvent_own_marker [of
      "event0\<lparr>ev_SubType := ''message_changed'', ev_Files := [\<lparr>file_ID = ''F1'',
          file_Name = ''a.png'', file_Size = 3, file_URLPrivateDownload = ''u''\<rparr>],
        ev_SubMessage := Some (submsg0\<lparr>sub_Blocks := [SectionBlock ''matterbridge_abc'']\<rparr>)\<rparr>"
      bridge0]
  by (simp add: bridge0_def event0_def submsg0_def slack_consts)


section \<open>Dedup markers of uploaded files\<close>

lemma holdsChannel_cache_Add:
  "holdsChannel (cache_Add c k (CTime t)) k' \<Longrightarrow> holdsChannel c k'"
proof (cases "k' = k")
  case True
  assume "holdsChannel (cache_Add c k (CTime t)) k'"
  with True show ?thesis by (simp add: holdsChannel_def cache_Add_same)
next
  case False
  assume h: "holdsChannel (cache_Add c k (CTime t)) k'"
  from cache_Add_other [OF False, of c "CTime t"] h show ?thesis
    by (auto simp: holdsChannel_def)
qed

lemma uploadFile_params_Text [simp]:
  "uploadFile_params (msg\<lparr>msg_Text := t\<rparr>) fi data channelID = uploadFile_params msg fi data channelID"
  by (simp add: uploadFile_params_def)

lemma time_Since_less:
  "0 < ttl \<Longrightarrow> ttl \<le> maxDuration \<Longrightarrow> (time_Since now t < ttl) = (now - t < ttl)"
  by (auto simp: time_Since_def Let_def minDuration_def maxDuration_def)

lemma Minute_bounds: "0 < Minute" "Minute \<le> maxDuration" "0 < 10 * Second" "10 * Second \<le> maxDuration"
  "10 * Second \<le> Minute"
  by (simp_all add: Minute_def Second_def maxDuration_def)

lemma uploadFile_single:
  assumes files: "Extra_get (msg_Extra msg) ''file'' = [PFileInfo fi]"
    and data: "fi_Data fi = Some data"
    and upload: "env_UploadFile E (length (calls b)) (uploadFile_params msg fi data channelID)
                  = Inr res"
    and fid: "res_ID res \<noteq> []"
  shows "\<exists>r b'. uploadFile E msg channelID b = Inr (r, b')
           \<and> clock b' = clock b
           \<and> cache b' = cache_Add (cache_Add (cache b) (''filename'' @ fi_Name fi) (CTime (clock b)))
                          (''file'' @ res_ID res) (CTime (clock b))"
  using assms by (simp add: uploadFile_def Let_def called_def)

text \<open>
  Claim C2: after \<open>uploadFile\<close> has uploaded a file at time \<open>T = clock b\<close> and the
  platform has returned its ID, \<open>fileCached\<close> is true for a file with that ID
  queried less than 60 seconds after \<open>T\<close>, true for a file with that name queried
  less than 10 seconds after \<open>T\<close>, and false for a file with that ID and name queried
  60 seconds after \<open>T\<close> or later. (In the second case the key \<open>file<id>\<close> of the
  queried file must not be one under which the cache holds a channel ID, on which the
  lookup panics.)
\<close>

theorem uploadFile_dedup_windows:
  assumes files: "Extra_get (msg_Extra msg) ''file'' = [PFileInfo fi]"
    and data: "fi_Data fi = Some data"
    and upload: "env_UploadFile E (length (calls b)) (uploadFile_params msg fi data channelID)
                  = Inr res"
    and fid: "res_ID res \<noteq> []"
  shows "\<exists>r b'. uploadFile E msg channelID b = Inr (r, b')
     \<and> (\<forall>f t. file_ID f = res_ID res \<and> t - clock b < Minute
            \<longrightarrow> (\<exists>b''. fileCached (b'\<lparr>clock := t\<rparr>) f = Inr (True, b'')))
     \<and> (\<forall>f t. file_Name f = fi_Name fi \<and> t - clock b < 10 * Second
              \<and> \<not> holdsChannel (cache b) (''file'' @ file_ID f)
            \<longrightarrow> (\<exists>b''. fileCached (b'\<lparr>clock := t\<rparr>) f = Inr (True, b'')))
     \<and> (\<forall>f t. file_ID f = res_ID res \<and> file_Name f = fi_Name fi \<and> Minute \<le> t - clock b
            \<longrightarrow> (\<exists>b''. fileCached (b'\<lparr>clock := t\<rparr>) f = Inr (False, b'')))"
proof -
  define T where "T = clock b"
  define kn where "kn = ''filename'' @ fi_Name fi"
  define kf where "kf = ''file'' @ res_ID res"
  from uploadFile_single [OF assms] obtain r b' where
    up: "uploadFile E msg channelID b = Inr (r, b')"
    and c': "cache b' = cache_Add (cache_Add (cache b) kn (CTime T)) kf (CTime T)"
    unfolding T_def kn_def kf_def by blast
  have mf: "map_of (cache b') kf = Some (CTime T)"
    unfolding c' by (rule cache_Add_same)
  have mn: "map_of (cache b') kn = Some (CTime T)"
  proof (cases "kf = kn")
    case True
    then show ?thesis unfolding c' by (simp add: cache_Add_same)
  next
    case False
    then show ?thesis unfolding c' by (rule cache_Add_twice)
  qed
  have id_case: "\<exists>b''. fileCached (b'\<lparr>clock := t\<rparr>) f = Inr (True, b'')"
    if "file_ID f = res_ID res" "t - clock b < Minute" for f t
  proof -
    from that mf have "markerFresh (b'\<lparr>clock := t\<rparr>) (''file'' @ file_ID f) Minute"
      by (simp add: markerFresh_def kf_def T_def time_Since_less Minute_bounds)
    moreover from that mf have "\<not> holdsChannel (cache (b'\<lparr>clock := t\<rparr>)) (''file'' @ file_ID f)"
      by (simp add: holdsChannel_def kf_def)
    ultimately show ?thesis
      by (subst fileCached_eq) simp
  qed
  have name_case: "\<exists>b''. fileCached (b'\<lparr>clock := t\<rparr>) f = Inr (True, b'')"
    if "file_Name f = fi_Name fi" "t - clock b < 10 * Second"
      "\<not> holdsChannel (cache b) (''file'' @ file_ID f)" for f t
  proof -
    from that(3) have "\<not> holdsChannel (cache b') (''file'' @ file_ID f)"
      unfolding c' using holdsChannel_cache_Add by blast
    then have "\<not> holdsChannel (cache (b'\<lparr>clock := t\<rparr>)) (''file'' @ file_ID f)"
      by simp
    moreover from that mn have "markerFresh (b'\<lparr>clock := t\<rparr>) (''filename'' @ file_Name f) (10 * Second)"
      by (simp add: markerFresh_def kn_def T_def time_Since_less Minute_bounds)
    moreover from that mn have "\<not> holdsChannel (cache (b'\<lparr>clock := t\<rparr>)) (''filename'' @ file_Name f)"
      by (simp add: holdsChannel_def kn_def)
    ultimately show ?thesis
      by (subst fileCached_eq) simp
  qed
  have late_case: "\<exists>b''. fileCached (b'\<lparr>clock := t\<rparr>) f = Inr (False, b'')"
    if "file_ID f = res_ID res" "file_Name f = fi_Name fi" "Minute \<le> t - clock b" for f t
  proof -
    from that mf have "\<not> markerFresh (b'\<lparr>clock := t\<rparr>) (''file'' @ file_ID f) Minute"
      by (simp add: markerFresh_def kf_def T_def time_Since_less Minute_bounds)
    moreover from that mf have "\<not> holdsChannel (cache (b'\<lparr>clock := t\<rparr>)) (''file'' @ file_ID f)"
      by (simp add: holdsChannel_def kf_def)
    moreover from that mn Minute_bounds(5)
    have "\<not> markerFresh (b'\<lparr>clock := t\<rparr>) (''filename'' @ file_Name f) (10 * Second)"
      by (simp add: markerFresh_def kn_def T_def time_Since_less Minute_bounds(1-4))
    moreover from that mn have "\<not> holdsChannel (cache (b'\<lparr>clock := t\<rparr>)) (''filename'' @ file_Name f)"
      by (simp add: holdsChannel_def kn_def)
    ultimately show ?thesis
      by (subst fileCached_eq) simp
  qed
  from up id_case name_case late_case show ?thesis by blast
qed

theorem uploadFile_dedup_windows_witness:
  "\<exists>r b'. uploadFile env0 message_file ''C1'' bridge0 = Inr (r, b')
     \<and> (\<exists>b''. fileCached (b'\<lparr>clock := 59 * Second\<rparr>) file0 = Inr (True, b''))
     \<and> (\<exists>b''. fileCached (b'\<lparr>clock := 9 * Second\<rparr>) (file0\<lparr>file_ID := ''F2''\<rparr>)
                 = Inr (True, b''))
     \<and> (\<exists>b''. fileCached (b'\<lparr>clock := 60 * Second\<rparr>) file0 = Inr (False, b''))"
proof -
  have files: "Extra_get (msg_Extra message_file) ''file'' = [PFileInfo fileinfo0]"
    by (simp add: message_file_def Message_zero_def Extra_get_def)
  have data: "fi_Data fileinfo0 = Some ''abc''"
    by (simp add: fileinfo0_def)
  have upload: "env_UploadFile env0 (length (calls bridge0))
      (uploadFile_params message_file fileinfo0 ''abc'' ''C1'')
      = Inr \<lparr>res_ID = ''F1'', res_SharesPrivate = [], res_SharesPublic = []\<rparr>"
    by (simp add: env0_def)
  from uploadFile_dedup_windows [OF files data upload]
  obtain r b' where up: "uploadFile env0 message_file ''C1'' bridge0 = Inr (r, b')"
    and w1: "\<And>f t. file_ID f = ''F1'' \<and> t - clock bridge0 < Minute
         \<Longrightarrow> \<exists>b''. fileCached (b'\<lparr>clock := t\<rparr>) f = Inr (True, b'')"
    and w2: "\<And>f t. file_Name f = fi_Name fileinfo0 \<and> t - clock bridge0 < 10 * Second
              \<and> \<not> holdsChannel (cache bridge0) (''file'' @ file_ID f)
         \<Longrightarrow> \<exists>b''. fileCached (b'\<lparr>clock := t\<rparr>) f = Inr (True, b'')"
    and w3: "\<And>f t. file_ID f = ''F1'' \<and> file_Name f = fi_Name fileinfo0
              \<and> Minute \<le> t - clock bridge0
         \<Longrightarrow> \<exists>b''. fileCached (b'\<lparr>clock := t\<rparr>) f = Inr (False, b'')"
    by auto
  have "\<exists>b''. fileCached (b'\<lparr>clock := 59 * Second\<rparr>) file0 = Inr (True, b'')"
    by (rule w1) (simp add: file0_def bridge0_def Minute_def Second_def)
  moreover have "\<exists>b''. fileCached (b'\<lparr>clock := 9 * Second\<rparr>) (file0\<lparr>file_ID := ''F2''\<rparr>)
                 = Inr (True, b'')"
    by (rule w2) (simp add: file0_def fileinfo0_def bridge0_def Second_def holdsChannel_def)
  moreover have "\<exists>b''. fileCached (b'\<lparr>clock := 60 * Second\<rparr>) file0 = Inr (False, b'')"
    by (rule w3) (simp add: file0_def fileinfo0_def bridge0_def Minute_def Second_def)
  ultimately show ?thesis using up by blast
qed

section \<open>The retry loops of the API sender\<close>

lemma time_Sleep_eq:
  "time_Sleep d b = b\<lparr>clock := clock b + max 0 d, slept := slept b + max 0 d\<rparr>"
  by (simp add: time_Sleep_def max_def)

lemma retried_Nil [simp]: "retried c [] b = b"
  by (simp add: retried_def)

lemma retried_Cons: "retried c (w # ws) b = retried c ws (time_Sleep w (called c b))"
  by (simp add: retried_def time_Sleep_eq called_def replicate_app_Cons_same add.assoc)

lemma length_calls_sleep_called [simp]:
  "length (calls (time_Sleep w (called c b))) = Suc (length (calls b))"
  by (simp add: time_Sleep_eq called_def)

lemma handleRateLimit_retryable:
  "RetryAfter err = Some w \<Longrightarrow> handleRateLimit err b = (None, time_Sleep w b)"
  by (simp add: handleRateLimit_def)

lemma handleRateLimit_fatal:
  "RetryAfter err = None \<Longrightarrow> handleRateLimit err b = (Some err, b)"
  by (simp add: handleRateLimit_def)

lemma returnsAfterRetries_Nil:
  "(case answer (length (calls b)) of None \<Rightarrow> True | Some e \<Rightarrow> RetryAfter e = None)
   \<Longrightarrow> returnsAfterRetries answer c b [] (called c b)"
  by (simp add: returnsAfterRetries_def)

lemma returnsAfterRetries_Cons:
  assumes "answer (length (calls b)) = Some e" "RetryAfter e = Some w"
    and "returnsAfterRetries answer c (time_Sleep w (called c b)) ws b'"
  shows "returnsAfterRetries answer c b (w # ws) b'"
  using assms by (simp add: returnsAfterRetries_def retried_Cons)

lemma returnsAfterRetries_ConsD:
  assumes "returnsAfterRetries answer c b (w # ws) b'"
  shows "\<exists>e. answer (length (calls b)) = Some e \<and> RetryAfter e = Some w
     \<and> returnsAfterRetries answer c (time_Sleep w (called c b)) ws b'"
  using assms by (auto simp: returnsAfterRetries_def retried_Cons split: option.splits)


subsection \<open>Post message\<close>

lemma postAPIMessage_loop_after:
  "returnsAfterRetries (\<lambda>n. failure (env_PostMessage E n ch opts)) (CallPostMessage ch opts) b ws b'
   \<Longrightarrow> postAPIMessage_loop E ch opts b
       = Some (postAPIMessage_result (env_PostMessage E (length (calls b) + length ws) ch opts), b')"
proof (induction ws arbitrary: b)
  case Nil
  then show ?case
    by (subst postAPIMessage_loop.simps)
      (auto simp: returnsAfterRetries_def postAPIMessage_result_def failure_def
        handleRateLimit_fatal split: sum.splits)
next
  case (Cons w ws)
  from returnsAfterRetries_ConsD [OF Cons.prems] obtain e where
    e: "env_PostMessage E (length (calls b)) ch opts = Inl e" "RetryAfter e = Some w"
    and rest: "returnsAfterRetries (\<lambda>n. failure (env_PostMessage E n ch opts))
        (CallPostMessage ch opts) (time_Sleep w (called (CallPostMessage ch opts) b)) ws b'"
    by (auto simp: failure_def split: sum.splits)
  have "postAPIMessage_loop E ch opts b
      = postAPIMessage_loop E ch opts (time_Sleep w (called (CallPostMessage ch opts) b))"
    by (subst postAPIMessage_loop.simps) (simp add: e handleRateLimit_retryable)
  with Cons.IH [OF rest] show ?case by simp
qed

lemma postAPIMessage_loop_returns:
  assumes "postAPIMessage_loop E ch opts b = Some y"
  shows "\<exists>ws. returnsAfterRetries (\<lambda>n. failure (env_PostMessage E n ch opts))
            (CallPostMessage ch opts) b ws (snd y)
     \<and> fst y = postAPIMessage_result (env_PostMessage E (length (calls b) + length ws) ch opts)"
proof (rule postAPIMessage_loop.raw_induct [where P = "\<lambda>E ch opts b y.
    \<exists>ws. returnsAfterRetries (\<lambda>n. failure (env_PostMessage E n ch opts))
            (CallPostMessage ch opts) b ws (snd y)
     \<and> fst y = postAPIMessage_result (env_PostMessage E (length (calls b) + length ws) ch opts)",
     OF _ assms])
  fix loop E ch opts b y
  assume IH: "\<And>E ch opts b y. loop E ch opts b = Some y \<Longrightarrow>
    \<exists>ws. returnsAfterRetries (\<lambda>n. failure (env_PostMessage E n ch opts))
            (CallPostMessage ch opts) b ws (snd y)
     \<and> fst y = postAPIMessage_result (env_PostMessage E (length (calls b) + length ws) ch opts)"
    and body: "(case env_PostMessage E (length (calls b)) ch opts of
        Inr msgID \<Rightarrow> Some ((msgID, None), called (CallPostMessage ch opts) b)
      | Inl err \<Rightarrow>
          (case handleRateLimit err (called (CallPostMessage ch opts) b) of
             (None, b') \<Rightarrow> loop E ch opts b'
           | (Some err', b') \<Rightarrow> Some (([], Some (Collab err')), b'))) = Some y"
  let ?A = "\<lambda>n. failure (env_PostMessage E n ch opts)"
  let ?c = "CallPostMessage ch opts"
  show "\<exists>ws. returnsAfterRetries ?A ?c b ws (snd y)
     \<and> fst y = postAPIMessage_result (env_PostMessage E (length (calls b) + length ws) ch opts)"
  proof (cases "env_PostMessage E (length (calls b)) ch opts")
    case (Inr newID)
    with body have "y = ((newID, None), called ?c b)" by simp
    with Inr show ?thesis
      by (intro exI [of _ "[]"])
        (simp add: returnsAfterRetries_def postAPIMessage_result_def failure_def)
  next
    case (Inl e)
    show ?thesis
    proof (cases "RetryAfter e")
      case None
      with Inl body have "y = (([], Some (Collab e)), called ?c b)"
        by (simp add: handleRateLimit_fatal)
      with Inl None show ?thesis
        by (intro exI [of _ "[]"])
          (simp add: returnsAfterRetries_def postAPIMessage_result_def failure_def)
    next
      case (Some w)
      with Inl body have "loop E ch opts (time_Sleep w (called ?c b)) = Some y"
        by (simp add: handleRateLimit_retryable)
      from IH [OF this] obtain ws where
        ws: "returnsAfterRetries ?A ?c (time_Sleep w (called ?c b)) ws (snd y)"
          "fst y = postAPIMessage_result
             (env_PostMessage E (length (calls b) + length (w # ws)) ch opts)"
        by auto
      from Inl Some have "?A (length (calls b)) = Some e" by (simp add: failure_def)
      from returnsAfterRetries_Cons [OF this Some ws(1)] ws(2) show ?thesis by blast
    qed
  qed
qed

subsection \<open>Edit message and delete message\<close>

lemma editMessage_loop_after:
  "returnsAfterRetries (\<lambda>n. env_UpdateMessage E n ch ts opts) (CallUpdateMessage ch ts opts) b ws b'
   \<Longrightarrow> editMessage_loop E ch ts opts b
       = Some ((True, map_option Collab
                  (env_UpdateMessage E (length (calls b) + length ws) ch ts opts)), b')"
proof (induction ws arbitrary: b)
  case Nil
  then show ?case
    by (subst editMessage_loop.simps)
      (auto simp: returnsAfterRetries_def handleRateLimit_fatal split: option.splits)
next
  case (Cons w ws)
  from returnsAfterRetries_ConsD [OF Cons.prems] obtain e where
    e: "env_UpdateMessage E (length (calls b)) ch ts opts = Some e" "RetryAfter e = Some w"
    and rest: "returnsAfterRetries (\<lambda>n. env_UpdateMessage E n ch ts opts)
        (CallUpdateMessage ch ts opts) (time_Sleep w (called (CallUpdateMessage ch ts opts) b)) ws b'"
    by auto
  have "editMessage_loop E ch ts opts b
      = editMessage_loop E ch ts opts (time_Sleep w (called (CallUpdateMessage ch ts opts) b))"
    by (subst editMessage_loop.simps) (simp add: e handleRateLimit_retryable)
  with Cons.IH [OF rest] show ?case by simp
qed

lemma editMessage_loop_returns:
  assumes "editMessage_loop E ch ts opts b = Some y"
  shows "\<exists>ws. returnsAfterRetries (\<lambda>n. env_UpdateMessage E n ch ts opts)
            (CallUpdateMessage ch ts opts) b ws (snd y)
     \<and> fst y = (True, map_option Collab
                  (env_UpdateMessage E (length (calls b) + length ws) ch ts opts))"
proof (rule editMessage_loop.raw_induct [where P = "\<lambda>E ch ts opts b y.
    \<exists>ws. returnsAfterRetries (\<lambda>n. env_UpdateMessage E n ch ts opts)
            (CallUpdateMessage ch ts opts) b ws (snd y)
     \<and> fst y = (True, map_option Collab
                  (env_UpdateMessage E (length (calls b) + length ws) ch ts opts))",
     OF _ assms])
  fix loop E ch ts opts b y
  assume IH: "\<And>E ch ts opts b y. loop E ch ts opts b = Some y \<Longrightarrow>
    \<exists>ws. returnsAfterRetries (\<lambda>n. env_UpdateMessage E n ch ts opts)
            (CallUpdateMessage ch ts opts) b ws (snd y)
     \<and> fst y = (True, map_option Collab
                  (env_UpdateMessage E (length (calls b) + length ws) ch ts opts))"
    and body: "(case env_UpdateMessage E (length (calls b)) ch ts opts of
        None \<Rightarrow> Some ((True, None), called (CallUpdateMessage ch ts opts) b)
      | Some err \<Rightarrow>
          (case handleRateLimit err (called (CallUpdateMessage ch ts opts) b) of
             (None, b') \<Rightarrow> loop E ch ts opts b'
           | (Some err', b') \<Rightarrow> Some ((True, Some (Collab err')), b'))) = Some y"
  let ?A = "\<lambda>n. env_UpdateMessage E n ch ts opts"
  let ?c = "CallUpdateMessage ch ts opts"
  show "\<exists>ws. returnsAfterRetries ?A ?c b ws (snd y)
     \<and> fst y = (True, map_option Collab (?A (length (calls b) + length ws)))"
  proof (cases "?A (length (calls b))")
    case None
    with body have "y = ((True, None), called ?c b)" by simp
    with None show ?thesis
      by (intro exI [of _ "[]"]) (simp add: returnsAfterRetries_def)
  next
    case (Some e)
    show ?thesis
    proof (cases "RetryAfter e")
      case None
      with Some body have "y = ((True, Some (Collab e)), called ?c b)"
        by (simp add: handleRateLimit_fatal)
      with Some None show ?thesis
        by (intro exI [of _ "[]"]) (simp add: returnsAfterRetries_def)
    next
      case w: (Some w)
      with Some body have "loop E ch ts opts (time_Sleep w (called ?c b)) = Some y"
        by (simp add: handleRateLimit_retryable)
      from IH [OF this] obtain ws where
        ws: "returnsAfterRetries ?A ?c (time_Sleep w (called ?c b)) ws (snd y)"
          "fst y = (True, map_option Collab (?A (length (calls b) + length (w # ws))))"
        by auto
      from returnsAfterRetries_Cons [OF Some w ws(1)] ws(2) show ?thesis by blast
    qed
  qed
qed

lemma deleteMessage_loop_after:
  "returnsAfterRetries (\<lambda>n. env_DeleteMessage E n ch ts) (CallDeleteMessage ch ts) b ws b'
   \<Longrightarrow> deleteMessage_loop E ch ts b
       = Some ((True, map_option Collab
                  (env_DeleteMessage E (length (calls b) + length ws) ch ts)), b')"
proof (induction ws arbitrary: b)
  case Nil
  then show ?case
    by (subst deleteMessage_loop.simps)
      (auto simp: returnsAfterRetries_def handleRateLimit_fatal split: option.splits)
next
  case (Cons w ws)
  from returnsAfterRetries_ConsD [OF Cons.prems] obtain e where
    e: "env_DeleteMessage E (length (calls b)) ch ts = Some e" "RetryAfter e = Some w"
    and rest: "returnsAfterRetries (\<lambda>n. env_DeleteMessage E n ch ts)
        (CallDeleteMessage ch ts) (time_Sleep w (called (CallDeleteMessage ch ts) b)) ws b'"
    by auto
  have "deleteMessage_loop E ch ts b
      = deleteMessage_loop E ch ts (time_Sleep w (called (CallDeleteMessage ch ts) b))"
    by (subst deleteMessage_loop.simps) (simp add: e handleRateLimit_retryable)
  with Cons.IH [OF rest] show ?case by simp
qed

lemma deleteMessage_loop_returns:
  assumes "deleteMessage_loop E ch ts b = Some y"
  shows "\<exists>ws. returnsAfterRetries (\<lambda>n. env_DeleteMessage E n ch ts)
            (CallDeleteMessage ch ts) b ws (snd y)
     \<and> fst y = (True, map_option Collab
                  (env_DeleteMessage E (length (calls b) + length ws) ch ts))"
proof (rule deleteMessage_loop.raw_induct [where P = "\<lambda>E ch ts b y.
    \<exists>ws. returnsAfterRetries (\<lambda>n. env_DeleteMessage E n ch ts)
            (CallDeleteMessage ch ts) b ws (snd y)
     \<and> fst y = (True, map_option Collab
                  (env_DeleteMessage E (length (calls b) + length ws) ch ts))",
     OF _ assms])
  fix loop E ch ts b y
  assume IH: "\<And>E ch ts b y. loop E ch ts b = Some y \<Longrightarrow>
    \<exists>ws. returnsAfterRetries (\<lambda>n. env_DeleteMessage E n ch ts)
            (CallDeleteMessage ch ts) b ws (snd y)
     \<and> fst y = (True, map_option Collab
                  (env_DeleteMessage E (length (calls b) + length ws) ch ts))"
    and body: "(case env_DeleteMessage E (length (calls b)) ch ts of
        None \<Rightarrow> Some ((True, None), called (CallDeleteMessage ch ts) b)
      | Some err \<Rightarrow>
          (case handleRateLimit err (called (CallDeleteMessage ch ts) b) of
             (None, b') \<Rightarrow> loop E ch ts b'
           | (Some err', b') \<Rightarrow> Some ((True, Some (Collab err')), b'))) = Some y"
  let ?A = "\<lambda>n. env_DeleteMessage E n ch ts"
  let ?c = "CallDeleteMessage ch ts"
  show "\<exists>ws. returnsAfterRetries ?A ?c b ws (snd y)
     \<and> fst y = (True, map_option Collab (?A (length (calls b) + length ws)))"
  proof (cases "?A (length (calls b))")
    case None
    with body have "y = ((True, None), called ?c b)" by simp
    with None show ?thesis
      by (intro exI [of _ "[]"]) (simp add: returnsAfterRetries_def)
  next
    case (Some e)
    show ?thesis
    proof (cases "RetryAfter e")
      case None
      with Some body have "y = ((True, Some (Collab e)), called ?c b)"
        by (simp add: handleRateLimit_fatal)
      with Some None show ?thesis
        by (intro exI [of _ "[]"]) (simp add: returnsAfterRetries_def)
    next
      case w: (Some w)
      with Some body have "loop E ch ts (time_Sleep w (called ?c b)) = Some y"
        by (simp add: handleRateLimit_retryable)
      from IH [OF this] obtain ws where
        ws: "returnsAfterRetries ?A ?c (time_Sleep w (called ?c b)) ws (snd y)"
          "fst y = (True, map_option Collab (?A (length (calls b) + length (w # ws))))"
        by auto
      from returnsAfterRetries_Cons [OF Some w ws(1)] ws(2) show ?thesis by blast
    qed
  qed
qed

subsection \<open>Topic and purpose update\<close>

lemma updateTopicOrPurpose_loop_unfold:
  assumes "ty = ''topic'' \<or> ty = ''purpose''"
  shows "updateTopicOrPurpose_loop E ty ch tx b =
     (case updateTopicOrPurpose_answer E ty ch tx (length (calls b)) of
        None \<Rightarrow> Some (None, called (updateTopicOrPurpose_call ty ch tx) b)
      | Some err \<Rightarrow>
          (case handleRateLimit err (called (updateTopicOrPurpose_call ty ch tx) b) of
             (None, b') \<Rightarrow> updateTopicOrPurpose_loop E ty ch tx b'
           | (Some err', b') \<Rightarrow> Some (Some (Collab err'), b')))"
  using assms
  by (subst updateTopicOrPurpose_loop.simps)
    (auto simp: updateTopicOrPurpose_answer_def updateTopicOrPurpose_call_def
      split: option.splits)

lemma updateTopicOrPurpose_loop_after:
  assumes ty: "ty = ''topic'' \<or> ty = ''purpose''"
  shows "returnsAfterRetries (updateTopicOrPurpose_answer E ty ch tx)
       (updateTopicOrPurpose_call ty ch tx) b ws b'
   \<Longrightarrow> updateTopicOrPurpose_loop E ty ch tx b
       = Some (map_option Collab
                 (updateTopicOrPurpose_answer E ty ch tx (length (calls b) + length ws)), b')"
proof (induction ws arbitrary: b)
  case Nil
  then show ?case
    by (subst updateTopicOrPurpose_loop_unfold [OF ty])
      (auto simp: returnsAfterRetries_def handleRateLimit_fatal split: option.splits)
next
  case (Cons w ws)
  let ?c = "updateTopicOrPurpose_call ty ch tx"
  from returnsAfterRetries_ConsD [OF Cons.prems] obtain e where
    e: "updateTopicOrPurpose_answer E ty ch tx (length (calls b)) = Some e"
      "RetryAfter e = Some w"
    and rest: "returnsAfterRetries (updateTopicOrPurpose_answer E ty ch tx) ?c
        (time_Sleep w (called ?c b)) ws b'"
    by auto
  have "updateTopicOrPurpose_loop E ty ch tx b
      = updateTopicOrPurpose_loop E ty ch tx (time_Sleep w (called ?c b))"
    by (subst updateTopicOrPurpose_loop_unfold [OF ty]) (simp add: e handleRateLimit_retryable)
  with Cons.IH [OF rest] show ?case by simp
qed

lemma updateTopicOrPurpose_loop_returns:
  assumes "updateTopicOrPurpose_loop E ty ch tx b = Some y"
  shows "ty = ''topic'' \<or> ty = ''purpose'' \<longrightarrow>
    (\<exists>ws. returnsAfterRetries (updateTopicOrPurpose_answer E ty ch tx)
            (updateTopicOrPurpose_call ty ch tx) b ws (snd y)
     \<and> fst y = map_option Collab
                  (updateTopicOrPurpose_answer E ty ch tx (length (calls b) + length ws)))"
proof (rule updateTopicOrPurpose_loop.raw_induct [where P = "\<lambda>E ty ch tx b y.
    ty = ''topic'' \<or> ty = ''purpose'' \<longrightarrow>
    (\<exists>ws. returnsAfterRetries (updateTopicOrPurpose_answer E ty ch tx)
            (updateTopicOrPurpose_call ty ch tx) b ws (snd y)
     \<and> fst y = map_option Collab
                  (updateTopicOrPurpose_answer E ty ch tx (length (calls b) + length ws)))",
     OF _ assms])
  fix loop E ty ch tx b y
  assume IH: "\<And>E ty ch tx b y. loop E ty ch tx b = Some y \<Longrightarrow>
    ty = ''topic'' \<or> ty = ''purpose'' \<longrightarrow>
    (\<exists>ws. returnsAfterRetries (updateTopicOrPurpose_answer E ty ch tx)
            (updateTopicOrPurpose_call ty ch tx) b ws (snd y)
     \<and> fst y = map_option Collab
                  (updateTopicOrPurpose_answer E ty ch tx (length (calls b) + length ws)))"
    and body: "(case (if ty = ''topic''
            then Some (env_SetTopicOfConversation E (length (calls b)) ch tx,
                       called (CallSetTopicOfConversation ch tx) b)
            else if ty = ''purpose''
            then Some (env_SetPurposeOfConversation E (length (calls b)) ch tx,
                       called (CallSetPurposeOfConversation ch tx) b)
            else None) of
        None \<Rightarrow> Some (None, b)
      | Some (None, b1) \<Rightarrow> Some (None, b1)
      | Some (Some err, b1) \<Rightarrow>
          (case handleRateLimit err b1 of
             (None, b') \<Rightarrow> loop E ty ch tx b'
           | (Some err', b') \<Rightarrow> Some (Some (Collab err'), b'))) = Some y"
  let ?A = "updateTopicOrPurpose_answer E ty ch tx"
  let ?c = "updateTopicOrPurpose_call ty ch tx"
  show "ty = ''topic'' \<or> ty = ''purpose'' \<longrightarrow>
    (\<exists>ws. returnsAfterRetries ?A ?c b ws (snd y)
     \<and> fst y = map_option Collab (?A (length (calls b) + length ws)))"
  proof
    assume ty: "ty = ''topic'' \<or> ty = ''purpose''"
    with body have body': "(case ?A (length (calls b)) of
        None \<Rightarrow> Some (None, called ?c b)
      | Some err \<Rightarrow>
          (case handleRateLimit err (called ?c b) of
             (None, b') \<Rightarrow> loop E ty ch tx b'
           | (Some err', b') \<Rightarrow> Some (Some (Collab err'), b'))) = Some y"
      by (auto simp: updateTopicOrPurpose_answer_def updateTopicOrPurpose_call_def
          split: option.splits)
    show "\<exists>ws. returnsAfterRetries ?A ?c b ws (snd y)
       \<and> fst y = map_option Collab (?A (length (calls b) + length ws))"
    proof (cases "?A (length (calls b))")
      case None
      with body' have "y = (None, called ?c b)" by simp
      with None show ?thesis
        by (intro exI [of _ "[]"]) (simp add: returnsAfterRetries_def)
    next
      case (Some e)
      show ?thesis
      proof (cases "RetryAfter e")
        case None
        with Some body' have "y = (Some (Collab e), called ?c b)"
          by (simp add: handleRateLimit_fatal)
        with Some None show ?thesis
          by (intro exI [of _ "[]"]) (simp add: returnsAfterRetries_def)
      next
        case w: (Some w)
        with Some body' have "loop E ty ch tx (time_Sleep w (called ?c b)) = Some y"
          by (simp add: handleRateLimit_retryable)
        from IH [OF this] ty obtain ws where
          ws: "returnsAfterRetries ?A ?c (time_Sleep w (called ?c b)) ws (snd y)"
            "fst y = map_option Collab (?A (length (calls b) + length (w # ws)))"
          by auto
        from returnsAfterRetries_Cons [OF Some w ws(1)] ws(2) show ?thesis by blast
      qed
    qed
  qed
qed

subsection \<open>All four loops\<close>

text \<open>
  Claim C5: each platform call of the API sender (post, edit, delete, topic or purpose
  update) returns exactly when, after some number of answers that are rate-limit errors
  (any number: there is no bound), the platform answers with a success or with an error
  that is not a rate-limit error. It then returns that answer, having issued the same
  call once more than it was rate limited and slept the sum of the waits. With
  \<open>handleRateLimit\<close> as the spec describes it.
\<close>

theorem api_calls_retry_unbounded:
  "((postAPIMessage_loop E ch opts b = Some (r1, b1)) =
     (\<exists>ws. returnsAfterRetries (\<lambda>n. failure (env_PostMessage E n ch opts))
              (CallPostMessage ch opts) b ws b1
        \<and> r1 = postAPIMessage_result (env_PostMessage E (length (calls b) + length ws) ch opts)))
   \<and> ((editMessage_loop E ch ts opts b = Some (r2, b2)) =
     (\<exists>ws. returnsAfterRetries (\<lambda>n. env_UpdateMessage E n ch ts opts)
              (CallUpdateMessage ch ts opts) b ws b2
        \<and> r2 = (True, map_option Collab
                   (env_UpdateMessage E (length (calls b) + length ws) ch ts opts))))
   \<and> ((deleteMessage_loop E ch ts b = Some (r3, b3)) =
     (\<exists>ws. returnsAfterRetries (\<lambda>n. env_DeleteMessage E n ch ts)
              (CallDeleteMessage ch ts) b ws b3
        \<and> r3 = (True, map_option Collab
                   (env_DeleteMessage E (length (calls b) + length ws) ch ts))))
   \<and> (ty = ''topic'' \<or> ty = ''purpose'' \<longrightarrow>
       (updateTopicOrPurpose_loop E ty ch tx b = Some (r4, b4)) =
       (\<exists>ws. returnsAfterRetries (updateTopicOrPurpose_answer E ty ch tx)
              (updateTopicOrPurpose_call ty ch tx) b ws b4
        \<and> r4 = map_option Collab
                   (updateTopicOrPurpose_answer E ty ch tx (length (calls b) + length ws))))"
proof (intro conjI impI)
  show "(postAPIMessage_loop E ch opts b = Some (r1, b1)) =
     (\<exists>ws. returnsAfterRetries (\<lambda>n. failure (env_PostMessage E n ch opts))
              (CallPostMessage ch opts) b ws b1
        \<and> r1 = postAPIMessage_result (env_PostMessage E (length (calls b) + length ws) ch opts))"
    using postAPIMessage_loop_returns [of E ch opts b "(r1, b1)"]
      postAPIMessage_loop_after [of E ch opts b _ b1]
    by auto
  show "(editMessage_loop E ch ts opts b = Some (r2, b2)) =
     (\<exists>ws. returnsAfterRetries (\<lambda>n. env_UpdateMessage E n ch ts opts)
              (CallUpdateMessage ch ts opts) b ws b2
        \<and> r2 = (True, map_option Collab
                   (env_UpdateMessage E (length (calls b) + length ws) ch ts opts)))"
    using editMessage_loop_returns [of E ch ts opts b "(r2, b2)"]
      editMessage_loop_after [of E ch ts opts b _ b2]
    by auto
  show "(deleteMessage_loop E ch ts b = Some (r3, b3)) =
     (\<exists>ws. returnsAfterRetries (\<lambda>n. env_DeleteMessage E n ch ts)
              (CallDeleteMessage ch ts) b ws b3
        \<and> r3 = (True, map_option Collab
                   (env_DeleteMessage E (length (calls b) + length ws) ch ts)))"
    using deleteMessage_loop_returns [of E ch ts b "(r3, b3)"]
      deleteMessage_loop_after [of E ch ts b _ b3]
    by auto
  show "(updateTopicOrPurpose_loop E ty ch tx b = Some (r4, b4)) =
     (\<exists>ws. returnsAfterRetries (updateTopicOrPurpose_answer E ty ch tx)
              (updateTopicOrPurpose_call ty ch tx) b ws b4
        \<and> r4 = map_option Collab
                   (updateTopicOrPurpose_answer E ty ch tx (length (calls b) + length ws)))"
    if "ty = ''topic'' \<or> ty = ''purpose''"
    using updateTopicOrPurpose_loop_returns [of E ty ch tx b "(r4, b4)"]
      updateTopicOrPurpose_loop_after [OF that, of E ch tx b _ b4] that
    by auto
qed

text \<open>
  A call that is rate limited exactly twice, with waits of one and two seconds, and then
  accepted: it is issued three times and the loop has slept three seconds.
\<close>

theorem api_calls_retry_unbounded_witness:
  "postAPIMessage_loop env_ratelimited ''C1'' options0 bridge0
     = Some ((''1700000000.000100'', None),
         bridge0\<lparr>clock := 3 * Second, slept := 3 * Second,
           calls := [CallPostMessage ''C1'' options0, CallPostMessage ''C1'' options0,
                     CallPostMessage ''C1'' options0]\<rparr>)"
proof -
  let ?b' = "bridge0\<lparr>clock := 3 * Second, slept := 3 * Second,
           calls := [CallPostMessage ''C1'' options0, CallPostMessage ''C1'' options0,
                     CallPostMessage ''C1'' options0]\<rparr>"
  let ?ws = "[1 * Second, 2 * Second]"
  have a1: "returnsAfterRetries (\<lambda>n. failure (env_PostMessage env_ratelimited n ''C1'' options0))
      (CallPostMessage ''C1'' options0) bridge0 ?ws ?b'"
    by (simp add: returnsAfterRetries_def failure_def env_ratelimited_def
        bridge0_def retried_def called_def Second_def)
  have a2: "(''1700000000.000100'', None) = postAPIMessage_result (env_PostMessage env_ratelimited
      (length (calls bridge0) + length ?ws) ''C1'' options0)"
    by (simp add: postAPIMessage_result_def env_ratelimited_def bridge0_def)
  have ex: "\<exists>ws. returnsAfterRetries (\<lambda>n. failure (env_PostMessage env_ratelimited n ''C1'' options0))
      (CallPostMessage ''C1'' options0) bridge0 ws ?b'
     \<and> (''1700000000.000100'', None) = postAPIMessage_result (env_PostMessage env_ratelimited
      (length (calls bridge0) + length ws) ''C1'' options0)"
    by (rule exI [of _ ?ws]) (rule conjI [OF a1 a2])
  have iff: "(postAPIMessage_loop env_ratelimited ''C1'' options0 bridge0
       = Some ((''1700000000.000100'', None), ?b')) =
     (\<exists>ws. returnsAfterRetries (\<lambda>n. failure (env_PostMessage env_ratelimited n ''C1'' options0))
      (CallPostMessage ''C1'' options0) bridge0 ws ?b'
     \<and> (''1700000000.000100'', None) = postAPIMessage_result (env_PostMessage env_ratelimited
      (length (calls bridge0) + length ws) ''C1'' options0))"
    by (rule api_calls_retry_unbounded [THEN conjunct1])
  show ?thesis by (rule iffD2 [OF iff ex])
qed

text \<open>
  A call that the platform rate limits forever never returns: the loop has no bound on
  the attempts.
\<close>

lemma postAPIMessage_loop_retries_forever:
  assumes "\<And>n. \<exists>e w. env_PostMessage E n ch opts = Inl e \<and> RetryAfter e = Some w"
  shows "postAPIMessage_loop E ch opts b = None"
proof (rule ccontr)
  assume "postAPIMessage_loop E ch opts b \<noteq> None"
  then obtain y where "postAPIMessage_loop E ch opts b = Some y" by blast
  from postAPIMessage_loop_returns [OF this] obtain ws where
    "returnsAfterRetries (\<lambda>n. failure (env_PostMessage E n ch opts))
       (CallPostMessage ch opts) b ws (snd y)"
    by blast
  then have "case failure (env_PostMessage E (length (calls b) + length ws) ch opts) of
      None \<Rightarrow> True | Some e \<Rightarrow> RetryAfter e = None"
    by (simp add: returnsAfterRetries_def)
  moreover from assms [of "length (calls b) + length ws"] obtain e w where
    "env_PostMessage E (length (calls b) + length ws) ch opts = Inl e" "RetryAfter e = Some w"
    by blast
  ultimately show False by (simp add: failure_def)
qed


section \<open>The calls each sender makes\<close>

lemma callsOnly_iff: "callsOnly P b b' = (\<exists>cs. calls b' = calls b @ cs \<and> list_all P cs)"
proof
  assume "callsOnly P b b'"
  then have "calls b' = calls b @ drop (length (calls b)) (calls b')"
      "list_all P (drop (length (calls b)) (calls b'))"
    by (simp_all add: callsOnly_def) (metis append_take_drop_id)
  then show "\<exists>cs. calls b' = calls b @ cs \<and> list_all P cs" by blast
next
  assume "\<exists>cs. calls b' = calls b @ cs \<and> list_all P cs"
  then show "callsOnly P b b'" by (auto simp: callsOnly_def)
qed

lemma callsOnly_refl [simp]: "callsOnly P b b"
  by (simp add: callsOnly_def)

lemma callsOnly_same_calls: "calls b' = calls b \<Longrightarrow> callsOnly P b b'"
  by (simp add: callsOnly_def)

lemma callsOnly_trans: "callsOnly P b b1 \<Longrightarrow> callsOnly P b1 b2 \<Longrightarrow> callsOnly P b b2"
  by (auto simp: callsOnly_iff)

lemma callsOnly_called: "P c \<Longrightarrow> callsOnly P b (called c b)"
  by (simp add: callsOnly_iff called_def)

lemma callsOnly_retried: "P c \<Longrightarrow> callsOnly P b (called c (retried c ws b))"
  by (simp add: callsOnly_iff called_def retried_def list_all_iff)

lemma returnsAfterRetries_callsOnly:
  "returnsAfterRetries answer c b ws b' \<Longrightarrow> P c \<Longrightarrow> callsOnly P b b'"
  by (simp add: returnsAfterRetries_def callsOnly_retried)

lemma postAPIMessage_callsOnly:
  assumes "postAPIMessage E msg channelInfo b = Some (Inr (r, b'))"
  shows "callsOnly isPlatformCall b b'"
proof (cases "msg_Text msg = []")
  case True
  with assms show ?thesis by (simp add: postAPIMessage_def)
next
  case False
  with assms obtain opts where
    "postAPIMessage_loop E (ch_ID channelInfo) opts b = Some (r, b')"
    by (auto simp: postAPIMessage_def split: sum.splits)
  from postAPIMessage_loop_returns [OF this] show ?thesis
    by (auto intro!: returnsAfterRetries_callsOnly simp: isPlatformCall_def isWebhookCall_def)
qed

lemma editMessage_callsOnly:
  assumes "editMessage E msg channelInfo b = Some (Inr (r, b'))"
  shows "callsOnly isPlatformCall b b'"
proof (cases "msg_ID msg = []")
  case True
  with assms show ?thesis by (simp add: editMessage_def)
next
  case False
  with assms obtain opts where
    "editMessage_loop E (ch_ID channelInfo) (msg_ID msg) opts b = Some (r, b')"
    by (auto simp: editMessage_def split: sum.splits)
  from editMessage_loop_returns [OF this] show ?thesis
    by (auto intro!: returnsAfterRetries_callsOnly simp: isPlatformCall_def isWebhookCall_def)
qed

lemma deleteMessage_callsOnly:
  assumes "deleteMessage E msg channelInfo b = Some (r, b')"
  shows "callsOnly isPlatformCall b b'"
proof (cases "msg_Event msg \<noteq> EventMsgDelete \<or> msg_ID msg = []")
  case True
  with assms show ?thesis by (auto simp: deleteMessage_def split: if_splits)
next
  case False
  with assms have
    "deleteMessage_loop E (ch_ID channelInfo) (msg_ID msg) b = Some (r, b')"
    by (auto simp: deleteMessage_def)
  from deleteMessage_loop_returns [OF this] show ?thesis
    by (auto intro!: returnsAfterRetries_callsOnly simp: isPlatformCall_def isWebhookCall_def)
qed

lemma updateTopicOrPurpose_loop_callsOnly:
  assumes "updateTopicOrPurpose_loop E ty ch tx b = Some (r, b')"
  shows "callsOnly isPlatformCall b b'"
proof (cases "ty = ''topic'' \<or> ty = ''purpose''")
  case True
  with updateTopicOrPurpose_loop_returns [OF assms] obtain ws where
    "returnsAfterRetries (updateTopicOrPurpose_answer E ty ch tx)
       (updateTopicOrPurpose_call ty ch tx) b ws b'"
    by auto
  then show ?thesis
    by (rule returnsAfterRetries_callsOnly)
      (simp add: isPlatformCall_def isWebhookCall_def updateTopicOrPurpose_call_def)
next
  case False
  with assms have "b' = b"
    by (subst (asm) updateTopicOrPurpose_loop.simps) auto
  then show ?thesis by simp
qed

lemma handleTopicOrPurpose_callsOnly:
  assumes "handleTopicOrPurpose E msg channelInfo b = Some (r, b')"
  shows "callsOnly isPlatformCall b b'"
  using assms updateTopicOrPurpose_loop_callsOnly
  by (auto simp: handleTopicOrPurpose_def updateTopicOrPurpose_def split: if_splits prod.splits)

lemma callsOnly_cache [simp]: "callsOnly P b (b'\<lparr>cache := c\<rparr>) = callsOnly P b b'"
  by (simp add: callsOnly_def)

lemma callsOnly_remote [simp]: "callsOnly P b (b'\<lparr>remote := c\<rparr>) = callsOnly P b b'"
  by (simp add: callsOnly_def)

lemma callsOnly_from_cache [simp]: "callsOnly P (b\<lparr>cache := c\<rparr>) b' = callsOnly P b b'"
  by (simp add: callsOnly_def)

lemma callsOnly_called_step: "P c \<Longrightarrow> callsOnly P (called c b) b' \<Longrightarrow> callsOnly P b b'"
  using callsOnly_called callsOnly_trans by blast

lemma uploadFile_loop_callsOnly:
  "uploadFile_loop E channelID fs msg messageID b = Inr (r, b')
   \<Longrightarrow> callsOnly isPlatformCall b b'"
proof (induction E channelID fs msg messageID b rule: uploadFile_loop.induct)
  case (1 E channelID msg messageID b)
  then show ?case by simp
next
  case (2 E channelID fi fs msg messageID b)
  let ?msg1 = "if msg_Text msg = fi_Comment fi then msg\<lparr>msg_Text := []\<rparr> else msg"
  let ?b1 = "b\<lparr>cache := cache_Add (cache b) (''filename'' @ fi_Name fi) (CTime (clock b))\<rparr>"
  from "2.prems" obtain data where data: "fi_Data fi = Some data"
    by (cases "fi_Data fi") (simp_all add: Let_def)
  let ?params = "uploadFile_params ?msg1 fi data channelID"
  let ?b2 = "called (CallUploadFile ?params) ?b1"
  have step: "callsOnly isPlatformCall b ?b2"
    by (simp add: callsOnly_iff called_def isPlatformCall_def isWebhookCall_def)
  show ?case
  proof (cases "env_UploadFile E (length (calls ?b1)) ?params")
    case (Inl err)
    with "2.prems" data have "b' = ?b2" by (simp add: Let_def)
    with step show ?thesis by simp
  next
    case (Inr res)
    show ?thesis
    proof (cases "res_ID res \<noteq> []")
      case True
      with "2.prems" data Inr "2.IH"(1) [OF refl refl refl data refl refl Inr True]
      have "callsOnly isPlatformCall ?b2 b'"
        by (simp add: Let_def)
      with step show ?thesis by (rule callsOnly_trans)
    next
      case False
      with "2.prems" data Inr "2.IH"(2) [OF refl refl refl data refl refl Inr False]
      have "callsOnly isPlatformCall ?b2 b'"
        by (simp add: Let_def)
      with step show ?thesis by (rule callsOnly_trans)
    qed
  qed
qed simp_all

lemma sendAPI_extraMsgs_callsOnly:
  "sendAPI_extraMsgs E msgs channelInfo b = Some (Inr b') \<Longrightarrow> callsOnly isPlatformCall b b'"
proof (induction msgs arbitrary: b)
  case Nil
  then show ?case by simp
next
  case (Cons rmsg rest)
  from Cons.prems obtain r b1 where
    post: "postAPIMessage E (rmsg\<lparr>msg_Text := msg_Username rmsg @ msg_Text rmsg\<rparr>) channelInfo b
             = Some (Inr (r, b1))"
    and rest: "sendAPI_extraMsgs E rest channelInfo b1 = Some (Inr b')"
    by (auto split: option.splits sum.splits)
  from postAPIMessage_callsOnly [OF post] Cons.IH [OF rest] show ?case
    by (rule callsOnly_trans)
qed

lemma sendAPI_post_callsOnly:
  assumes "sendAPI_post E msg channelInfo b = Some (Inr (r, b'))"
  shows "callsOnly isPlatformCall b b'"
proof (cases "0 < Extra_len (msg_Extra msg)")
  case True
  with assms obtain b1 where
    extra: "sendAPI_extraMsgs E (env_HandleExtra E msg) channelInfo b = Some (Inr b1)"
    and up: "uploadFile E msg (ch_ID channelInfo) b1 = Inr (r, b')"
    by (auto simp: sendAPI_post_def split: option.splits sum.splits)
  from up have "callsOnly isPlatformCall b1 b'"
    unfolding uploadFile_def by (rule uploadFile_loop_callsOnly)
  with sendAPI_extraMsgs_callsOnly [OF extra] show ?thesis
    by (rule callsOnly_trans)
next
  case False
  with assms show ?thesis
    by (auto simp: sendAPI_post_def intro: postAPIMessage_callsOnly)
qed

lemma handleGetChannelMembers_calls:
  "handleGetChannelMembers E msg b = (r, b') \<Longrightarrow> calls b' = calls b"
  by (auto simp: handleGetChannelMembers_def split: if_splits)

lemma sendAPI_callsOnly:
  assumes "sendAPI E msg b = Some (Inr (r, b'))"
  shows "callsOnly isPlatformCall b b'"
proof -
  obtain h b1 where h: "handleGetChannelMembers E msg b = (h, b1)"
    by (cases "handleGetChannelMembers E msg b")
  from handleGetChannelMembers_calls [OF h] have s1: "callsOnly isPlatformCall b b1"
    by (rule callsOnly_same_calls)
  show ?thesis
  proof (cases h)
    case True
    with assms h s1 show ?thesis by (simp add: sendAPI_def)
  next
    case notMembers: False
    show ?thesis
    proof (cases "env_getChannel E (msg_Channel msg)")
      case (Inl err)
      with assms h notMembers s1 show ?thesis by (simp add: sendAPI_def)
    next
      case (Inr channelInfo)
      show ?thesis
      proof (cases "msg_Event msg = EventUserTyping")
        case True
        with assms h notMembers Inr s1 show ?thesis by (simp add: sendAPI_def)
      next
        case notTyping: False
        from assms h notMembers Inr notTyping obtain ht e2 b2 where
          topic: "handleTopicOrPurpose E msg channelInfo b1 = Some ((ht, e2), b2)"
          by (auto simp: sendAPI_def split: option.splits)
        from handleTopicOrPurpose_callsOnly [OF topic] s1
        have s2: "callsOnly isPlatformCall b b2"
          using callsOnly_trans by blast
        show ?thesis
        proof (cases ht)
          case True
          with assms h notMembers Inr notTyping topic s2 show ?thesis
            by (simp add: sendAPI_def)
        next
          case notTopic: False
          define msg1 where "msg1 = (if env_ParentNotFound E msg
                                   then msg\<lparr>msg_ParentID := [],
                                          msg_Text := ''[thread]: '' @ msg_Text msg\<rparr>
                                   else msg)"
          from assms h notMembers Inr notTyping topic notTopic obtain hdel e3 b3 where
            del: "deleteMessage E msg1 channelInfo b2 = Some ((hdel, e3), b3)"
            unfolding msg1_def
            by (auto simp: sendAPI_def Let_def split: option.splits)
          from deleteMessage_callsOnly [OF del] s2
          have s3: "callsOnly isPlatformCall b b3"
            using callsOnly_trans by blast
          show ?thesis
          proof (cases hdel)
            case True
            with assms h notMembers Inr notTyping topic notTopic del s3 show ?thesis
              unfolding msg1_def by (simp add: sendAPI_def Let_def)
          next
            case notDelete: False
            define msg2 where "msg2 = (if GetBool b useNickPrefixConfig
                                        then msg1\<lparr>msg_Text := msg_Username msg1 @ msg_Text msg1\<rparr>
                                        else msg1)"
            from assms h notMembers Inr notTyping topic notTopic del notDelete
            obtain he e4 b4 where
              edit: "editMessage E msg2 channelInfo b3 = Some (Inr ((he, e4), b4))"
              unfolding msg1_def msg2_def
              by (auto simp: sendAPI_def Let_def split: option.splits sum.splits)
            from editMessage_callsOnly [OF edit] s3
            have s4: "callsOnly isPlatformCall b b4"
              using callsOnly_trans by blast
            show ?thesis
            proof (cases he)
              case True
              with assms h notMembers Inr notTyping topic notTopic del notDelete edit s4
              show ?thesis
                unfolding msg1_def msg2_def by (simp add: sendAPI_def Let_def)
            next
              case False
              with assms h notMembers Inr notTyping topic notTopic del notDelete edit
              have "sendAPI_post E msg2 channelInfo b4 = Some (Inr (r, b'))"
                unfolding msg1_def msg2_def by (simp add: sendAPI_def Let_def)
              from sendAPI_post_callsOnly [OF this] s4 show ?thesis
                using callsOnly_trans by blast
            qed
          qed
        qed
      qed
    qed
  qed
qed

lemma sendWebhook_extra_callsOnly:
  "callsOnly isWebhookCall b (sendWebhook_extra E msgs msg b)"
proof (induction msgs arbitrary: b)
  case Nil
  show ?case by simp
next
  case (Cons rmsg rest)
  show ?case
    by (simp only: sendWebhook_extra.simps)
      (rule callsOnly_called_step [OF _ Cons.IH], simp add: isWebhookCall_def)
qed

lemma sendWebhook_callsOnly:
  assumes "sendWebhook E msg b = Inr (r, b')"
  shows "callsOnly isWebhookCall b b'"
proof (cases "msg_Event msg \<noteq> []")
  case True
  with assms show ?thesis by (simp add: sendWebhook_def)
next
  case False
  define msg1 where "msg1 = (if GetBool b useNickPrefixConfig
                     then msg\<lparr>msg_Text := msg_Username msg @ msg_Text msg\<rparr> else msg)"
  define b1 where "b1 = (if msg_Extra msg1 \<noteq> None
                   then sendWebhook_extra E (env_HandleExtra E msg1) msg1 b else b)"
  have s1: "callsOnly isWebhookCall b b1"
    by (simp add: b1_def sendWebhook_extra_callsOnly)
  from assms False obtain m where "b' = called (CallWebhookSend m) b1"
    unfolding msg1_def b1_def
    by (auto simp: sendWebhook_def Let_def split: sum.splits option.splits)
  then have "callsOnly isWebhookCall b1 b'"
    by (simp add: callsOnly_called isWebhookCall_def)
  with s1 show ?thesis by (rule callsOnly_trans)
qed

section \<open>Routing of Send\<close>

text \<open>
  Claim C3: \<open>Send\<close> hands the message (with its text clipped and rewritten) to the
  webhook sender when an outgoing webhook URL is configured and no bot token is, and
  then every call it makes is a call of the webhook client; in every other configuration
  it hands it to the API sender, and then no call it makes is one of the webhook client.
\<close>

theorem Send_routing:
  "(GetString b outgoingWebhookConfig \<noteq> [] \<and> GetString b tokenConfig = [] \<longrightarrow>
      Send E msg b =
        (case sendWebhook E (Send_text E b msg) b of
           Inl p \<Rightarrow> Some (Inl p)
         | Inr (err, b') \<Rightarrow> Some (Inr (([], err), b')))
      \<and> (\<forall>r b'. Send E msg b = Some (Inr (r, b')) \<longrightarrow> callsOnly isWebhookCall b b'))
   \<and> (\<not> (GetString b outgoingWebhookConfig \<noteq> [] \<and> GetString b tokenConfig = []) \<longrightarrow>
      Send E msg b = sendAPI E (Send_text E b msg) b
      \<and> (\<forall>r b'. Send E msg b = Some (Inr (r, b')) \<longrightarrow> callsOnly isPlatformCall b b'))"
proof (intro conjI impI allI)
  assume c: "GetString b outgoingWebhookConfig \<noteq> [] \<and> GetString b tokenConfig = []"
  then show "Send E msg b =
        (case sendWebhook E (Send_text E b msg) b of
           Inl p \<Rightarrow> Some (Inl p)
         | Inr (err, b') \<Rightarrow> Some (Inr (([], err), b')))"
    by (simp add: Send_def)
  fix r b'
  assume "Send E msg b = Some (Inr (r, b'))"
  with c obtain err where "sendWebhook E (Send_text E b msg) b = Inr (err, b')"
    by (auto simp: Send_def split: sum.splits)
  then show "callsOnly isWebhookCall b b'"
    by (rule sendWebhook_callsOnly)
next
  assume c: "\<not> (GetString b outgoingWebhookConfig \<noteq> [] \<and> GetString b tokenConfig = [])"
  then show "Send E msg b = sendAPI E (Send_text E b msg) b"
    by (auto simp: Send_def)
  fix r b'
  assume "Send E msg b = Some (Inr (r, b'))"
  with c have "sendAPI E (Send_text E b msg) b = Some (Inr (r, b'))"
    by (auto simp: Send_def)
  then show "callsOnly isPlatformCall b b'"
    by (rule sendAPI_callsOnly)
qed

lemma Send_text_plain:
  "msg_Event msg = [] \<Longrightarrow> Send_text env0 b msg = msg"
  by (simp add: Send_text_def env0_def Let_def slack_consts)

lemma Send_webhook_example:
  "Send env0 message_hi bridge_webhook
     = Some (Inr (([], None), bridge_webhook\<lparr>calls :=
         [CallWebhookSend \<lparr>om_IconURL = [], om_Attachments = [], om_Channel = ''general'',
            om_UserName = ''bob'', om_Text = ''hi''\<rparr>]\<rparr>))"
proof -
  have t: "Send_text env0 bridge_webhook message_hi = message_hi"
    by (simp add: Send_text_plain message_hi_def Message_zero_def)
  show ?thesis
    unfolding Send_def t
    by (simp add: sendWebhook_def message_hi_def Message_zero_def
        bridge_webhook_def bridge0_def env0_def Extra_get_def called_def Let_def slack_consts)
qed

lemma Send_token_example:
  "Send env0 message_hi bridge_token
     = Some (Inr ((''1700000000.000100'', None), bridge_token\<lparr>calls :=
         [CallPostMessage ''C1'' (options0\<lparr>opt_Text := ''hi'', opt_BlockText := ''hi''\<rparr>)]\<rparr>))"
proof -
  have t: "Send_text env0 bridge_token message_hi = message_hi"
    by (simp add: Send_text_plain message_hi_def Message_zero_def)
  show ?thesis
    unfolding Send_def t
    by (simp add: sendAPI_def sendAPI_post_def postAPIMessage_def
      postAPIMessage_loop.simps prepareMessageOptions_def createAttach_def
      handleGetChannelMembers_def handleTopicOrPurpose_def deleteMessage_def editMessage_def
      message_hi_def Message_zero_def options0_def
      bridge_token_def bridge0_def env0_def Extra_get_def Extra_len_def called_def Let_def
      slack_consts)
qed

theorem Send_routing_witness:
  "callsOnly isWebhookCall bridge_webhook
     (bridge_webhook\<lparr>calls :=
         [CallWebhookSend \<lparr>om_IconURL = [], om_Attachments = [], om_Channel = ''general'',
            om_UserName = ''bob'', om_Text = ''hi''\<rparr>]\<rparr>)
   \<and> callsOnly isPlatformCall bridge_token
     (bridge_token\<lparr>calls :=
         [CallPostMessage ''C1'' (options0\<lparr>opt_Text := ''hi'', opt_BlockText := ''hi''\<rparr>)]\<rparr>)"
proof
  have "GetString bridge_webhook outgoingWebhookConfig \<noteq> []
      \<and> GetString bridge_webhook tokenConfig = []"
    by (simp add: bridge_webhook_def slack_consts)
  with Send_routing [of bridge_webhook env0 message_hi]
  have "\<forall>r b'. Send env0 message_hi bridge_webhook = Some (Inr (r, b'))
      \<longrightarrow> callsOnly isWebhookCall bridge_webhook b'"
    by blast
  with Send_webhook_example show "callsOnly isWebhookCall bridge_webhook
     (bridge_webhook\<lparr>calls :=
         [CallWebhookSend \<lparr>om_IconURL = [], om_Attachments = [], om_Channel = ''general'',
            om_UserName = ''bob'', om_Text = ''hi''\<rparr>]\<rparr>)"
    by blast
next
  have "\<not> (GetString bridge_token outgoingWebhookConfig \<noteq> []
      \<and> GetString bridge_token tokenConfig = [])"
    by (simp add: bridge_token_def slack_consts)
  with Send_routing [of bridge_token env0 message_hi]
  have "\<forall>r b'. Send env0 message_hi bridge_token = Some (Inr (r, b'))
      \<longrightarrow> callsOnly isPlatformCall bridge_token b'"
    by blast
  with Send_token_example show "callsOnly isPlatformCall bridge_token
     (bridge_token\<lparr>calls :=
         [CallPostMessage ''C1'' (options0\<lparr>opt_Text := ''hi'', opt_BlockText := ''hi''\<rparr>)]\<rparr>)"
    by blast
qed

section \<open>JoinChannel and the legacy join attempt\<close>


lemma Connect_legacy: "legacy (snd (Connect b)) = legacy b"
  by (simp add: Connect_def)

lemma JoinChannel_resolve_legacy: "legacy (snd (JoinChannel_resolve E name b)) = legacy b"
  by (simp add: JoinChannel_resolve_def Let_def called_def split: sum.splits)

lemma JoinChannel_legacy_legacy: "legacy (snd (JoinChannel_legacy E name b)) = legacy b"
  by (simp add: JoinChannel_legacy_def called_def split: option.splits)

text \<open>No call of \<open>JoinChannel\<close> changes the legacy flag.\<close>

lemma JoinChannel_keeps_legacy: "legacy (snd (JoinChannel E name b)) = legacy b"
proof (cases "legacy b")
  case True
  obtain r b1 where l: "JoinChannel_legacy E name b = (r, b1)"
    by (cases "JoinChannel_legacy E name b")
  with JoinChannel_legacy_legacy [of E name b] have "legacy b1 = legacy b" by simp
  with l True JoinChannel_resolve_legacy [of E name b1] show ?thesis
    by (cases r) (simp_all add: JoinChannel_def)
next
  case False
  with JoinChannel_resolve_legacy [of E name b] show ?thesis
    by (simp add: JoinChannel_def)
qed


text \<open>
  Every other error of the legacy join attempt but the one whose text is literally
  "default" is swallowed as well: the attempt never returns it.
\<close>

lemma JoinChannel_legacy_swallows_other_errors:
  assumes "env_JoinConversation E (length (calls b)) name = Some err"
    and "Error_text err \<noteq> ''default''"
  shows "JoinChannel_legacy E name b = (None, called (CallJoinConversation name) b)"
  using assms by (simp add: JoinChannel_legacy_def)





section \<open>Text from attachments\<close>

lemma handleAttachments_text_snoc:
  "handleAttachments_text (xs @ [a]) t =
     (if att_Text a \<noteq> []
      then (if att_Title a \<noteq> [] then getMessageTitle a else handleAttachments_text xs t)
           @ att_Text a
           @ (if att_Footer a \<noteq> [] then [CHR 0x0A, CHR 0x0A] @ att_Footer a else [])
      else att_Fallback a)"
  by (induction xs arbitrary: t) (simp_all add: Let_def)

text \<open>
  Claim C6 as stated fails: two events whose last attachment is the same (text "B", no
  title) and whose first attachments differ in their fallback text end with different
  texts, "AB" and "XB": the text of the last attachment is appended to what the earlier
  attachment left.
\<close>

theorem handleAttachments_accumulates_counterexample:
  "textOf (handleAttachments env0 (event_attachments ''A'') message_empty bridge0) = Inr ''AB''
   \<and> textOf (handleAttachments env0 (event_attachments ''X'') message_empty bridge0) = Inr ''XB''"
  by (simp add: textOf_def handleAttachments_def event_attachments_def event0_def
      message_empty_def Message_zero_def attachment0_def Extra_set_def Extra_get_def
      Let_def slack_consts)

text \<open>
  Claim C6, amended: for an event without files whose message text is empty, the text
  after \<open>handleAttachments\<close> is the fallback of the last attachment when that
  attachment has no text; its title (as a link when it has one), text and footer when it
  has a text and a title; and when it has a text but no title, its text and footer
  appended to the text produced from the attachments before it.
\<close>

theorem handleAttachments_last_attachment:
  assumes empty: "msg_Text rmsg = []"
    and atts: "ev_Attachments ev = earlier @ [lastA]"
    and files: "ev_Files ev = []"
    and extra: "msg_Extra rmsg \<noteq> None"
  shows "textOf (handleAttachments E ev rmsg b) =
     Inr (if att_Text lastA = [] then att_Fallback lastA
          else (if att_Title lastA \<noteq> [] then getMessageTitle lastA
                else handleAttachments_text earlier [])
               @ att_Text lastA
               @ (if att_Footer lastA \<noteq> [] then [CHR 0x0A, CHR 0x0A] @ att_Footer lastA
                  else []))"
proof -
  from extra obtain m where m: "msg_Extra rmsg = Some m" by blast
  show ?thesis
    using empty atts files m
    by (simp add: textOf_def handleAttachments_def Let_def Extra_set_def
        handleAttachments_text_snoc)
qed

theorem handleAttachments_last_attachment_witness:
  "textOf (handleAttachments env0
      (event0\<lparr>ev_Attachments := [attachment0\<lparr>att_Text := ''first''\<rparr>,
          attachment0\<lparr>att_Title := ''Title'', att_TitleLink := ''http://x'',
            att_Text := ''body'', att_Footer := ''foot''\<rparr>]\<rparr>)
      message_empty bridge0)
   = Inr (''[Title](http://x)'' @ [CHR 0x0A] @ ''body'' @ [CHR 0x0A, CHR 0x0A] @ ''foot'')"
  using handleAttachments_last_attachment [of message_empty
      "event0\<lparr>ev_Attachments := [attachment0\<lparr>att_Text := ''first''\<rparr>,
          attachment0\<lparr>att_Title := ''Title'', att_TitleLink := ''http://x'',
            att_Text := ''body'', att_Footer := ''foot''\<rparr>]\<rparr>"
      "[attachment0\<lparr>att_Text := ''first''\<rparr>]"
      "attachment0\<lparr>att_Title := ''Title'', att_TitleLink := ''http://x'',
            att_Text := ''body'', att_Footer := ''foot''\<rparr>" env0 bridge0]
  by (simp add: message_empty_def Message_zero_def event0_def attachment0_def
      getMessageTitle_def)

section \<open>Validation of the received message\<close>

text \<open>
  Claim C7: for an event without files that is not handled fully as a status event, the
  message left by the attachment stage is returned when it has a text and a username;
  otherwise the error is the one for an unresolved bot when the event has a bot ID, the
  one for an empty sub-message when it has a sub-message, the plain one otherwise.
\<close>

theorem handleMessageEvent_validation:
  assumes populated: "env_populateReceivedMessage E ev = Inr rmsg0"
    and status: "handleStatusEvent ev rmsg0 b = Inr ((False, rmsg1), b1)"
    and files: "ev_Files ev = []"
    and attachments: "handleAttachments E ev rmsg1 b1 = Inr (rmsg2, b2)"
  shows "handleMessageEvent E ev b =
     Inr (if msg_Text rmsg2 = [] \<or> msg_Username rmsg2 = []
          then Inl (if ev_BotID ev \<noteq> [] then EmptyBotMessage
                    else if ev_SubMessage ev \<noteq> None then EmptyMessageWithSubmessage
                    else EmptyMessage)
          else Inr rmsg2, b2)"
  using assms by (simp add: handleMessageEvent_def)

theorem handleMessageEvent_validation_witness:
  "handleMessageEvent env0 (event0\<lparr>ev_BotID := ''B1''\<rparr>) bridge0
     = Inr (Inl EmptyBotMessage, bridge0)
   \<and> handleMessageEvent env0 (event0\<lparr>ev_Text := ''hello''\<rparr>) bridge0
     = Inr (Inr (message_empty\<lparr>msg_Text := ''hello'', msg_UserID := ''U1'',
          msg_Account := ''slack.test'', msg_Protocol := ''slack''\<rparr>), bridge0)"
proof
  have "handleMessageEvent env0 (event0\<lparr>ev_BotID := ''B1''\<rparr>) bridge0 =
     Inr (if msg_Text (message_empty\<lparr>msg_UserID := ''U1'',
          msg_Account := ''slack.test'', msg_Protocol := ''slack''\<rparr>) = [] \<or> msg_Username (message_empty\<lparr>msg_UserID := ''U1'',
          msg_Account := ''slack.test'', msg_Protocol := ''slack''\<rparr>) = []
          then Inl (if ev_BotID (event0\<lparr>ev_BotID := ''B1''\<rparr>) \<noteq> [] then EmptyBotMessage
                    else if ev_SubMessage (event0\<lparr>ev_BotID := ''B1''\<rparr>) \<noteq> None then EmptyMessageWithSubmessage
                    else EmptyMessage)
          else Inr (message_empty\<lparr>msg_UserID := ''U1'',
          msg_Account := ''slack.test'', msg_Protocol := ''slack''\<rparr>), bridge0)"
    by (rule handleMessageEvent_validation [where ?rmsg0.0 = "message_empty\<lparr>msg_UserID := ''U1'',
          msg_Account := ''slack.test'', msg_Protocol := ''slack''\<rparr>" and ?b1.0 = bridge0
          and ?rmsg1.0 = "message_empty\<lparr>msg_UserID := ''U1'',
          msg_Account := ''slack.test'', msg_Protocol := ''slack''\<rparr>"])
      (simp_all add: env0_def event0_def message_empty_def Message_zero_def handleStatusEvent_def
        handleAttachments_def slack_consts)
  then show "handleMessageEvent env0 (event0\<lparr>ev_BotID := ''B1''\<rparr>) bridge0
     = Inr (Inl EmptyBotMessage, bridge0)"
    by (simp add: message_empty_def Message_zero_def)
next
  have "handleMessageEvent env0 (event0\<lparr>ev_Text := ''hello''\<rparr>) bridge0 =
     Inr (if msg_Text (message_empty\<lparr>msg_Text := ''hello'', msg_UserID := ''U1'',
          msg_Account := ''slack.test'', msg_Protocol := ''slack''\<rparr>) = [] \<or> msg_Username (message_empty\<lparr>msg_Text := ''hello'', msg_UserID := ''U1'',
          msg_Account := ''slack.test'', msg_Protocol := ''slack''\<rparr>) = []
          then Inl (if ev_BotID (event0\<lparr>ev_Text := ''hello''\<rparr>) \<noteq> [] then EmptyBotMessage
                    else if ev_SubMessage (event0\<lparr>ev_Text := ''hello''\<rparr>) \<noteq> None then EmptyMessageWithSubmessage
                    else EmptyMessage)
          else Inr (message_empty\<lparr>msg_Text := ''hello'', msg_UserID := ''U1'',
          msg_Account := ''slack.test'', msg_Protocol := ''slack''\<rparr>), bridge0)"
    by (rule handleMessageEvent_validation [where ?rmsg0.0 = "message_empty\<lparr>msg_Text := ''hello'', msg_UserID := ''U1'',
          msg_Account := ''slack.test'', msg_Protocol := ''slack''\<rparr>" and ?b1.0 = bridge0
          and ?rmsg1.0 = "message_empty\<lparr>msg_Text := ''hello'', msg_UserID := ''U1'',
          msg_Account := ''slack.test'', msg_Protocol := ''slack''\<rparr>"])
      (simp_all add: env0_def event0_def message_empty_def Message_zero_def handleStatusEvent_def
        handleAttachments_def slack_consts)
  then show "handleMessageEvent env0 (event0\<lparr>ev_Text := ''hello''\<rparr>) bridge0
     = Inr (Inr (message_empty\<lparr>msg_Text := ''hello'', msg_UserID := ''U1'',
          msg_Account := ''slack.test'', msg_Protocol := ''slack''\<rparr>), bridge0)"
    by (simp add: message_empty_def Message_zero_def)
qed

section \<open>File download\<close>

lemma handleDownloadFile_cached:
  assumes "fileCached b file = Inr (True, b1)"
  shows "handleDownloadFile E rmsg file retry b = Inr ((None, rmsg), b1)
     \<and> calls b1 = calls b \<and> slept b1 = slept b"
proof -
  from fileCached_state [OF assms] obtain c where "b1 = b\<lparr>cache := c\<rparr>" by blast
  with assms show ?thesis
    by (subst handleDownloadFile.simps) simp
qed

lemma handleDownloadFile_rejected:
  assumes "fileCached b file = Inr (False, b1)"
    and "env_HandleDownloadSize E rmsg (file_Name file) (file_Size file) = (Some err, rmsg1)"
  shows "handleDownloadFile E rmsg file retry b = Inr ((None, rmsg1), b1)
     \<and> calls b1 = calls b \<and> slept b1 = slept b"
proof -
  from fileCached_state [OF assms(1)] obtain c where "b1 = b\<lparr>cache := c\<rparr>" by blast
  with assms show ?thesis
    by (subst handleDownloadFile.simps) simp
qed

lemma handleDownloadFile_no_retry:
  assumes cached: "fileCached b file = Inr (False, b1)"
    and size: "env_HandleDownloadSize E rmsg (file_Name file) (file_Size file) = (None, rmsg1)"
    and answer: "downloadAnswer E b file (length (calls b)) = Inr data"
    and accept: "int (length data) = file_Size file \<or> retry"
  shows "handleDownloadFile E rmsg file retry b
       = Inr ((None, downloadedInto E rmsg1 file data), called (downloadCall b file) b1)
     \<and> calls b1 = calls b \<and> slept b1 = slept b \<and> clock b1 = clock b"
proof -
  from fileCached_state [OF cached] obtain c where "b1 = b\<lparr>cache := c\<rparr>" by blast
  with assms show ?thesis
    by (subst handleDownloadFile.simps)
      (auto simp: downloadAnswer_def downloadCall_def downloadedInto_def)
qed

lemma handleDownloadFile_download_error:
  assumes cached: "fileCached b file = Inr (False, b1)"
    and size: "env_HandleDownloadSize E rmsg (file_Name file) (file_Size file) = (None, rmsg1)"
    and answer: "downloadAnswer E b file (length (calls b)) = Inl err"
  shows "handleDownloadFile E rmsg file retry b
       = Inr ((Some (DownloadFailed (file_URLPrivateDownload file) err), rmsg1),
              called (downloadCall b file) b1)"
proof -
  from fileCached_state [OF cached] obtain c where "b1 = b\<lparr>cache := c\<rparr>" by blast
  with assms show ?thesis
    by (subst handleDownloadFile.simps)
      (auto simp: downloadAnswer_def downloadCall_def)
qed

lemma handleDownloadFile_retry_once:
  assumes cached: "fileCached b file = Inr (False, b1)"
    and size: "env_HandleDownloadSize E rmsg (file_Name file) (file_Size file) = (None, rmsg1)"
    and answer1: "downloadAnswer E b file (length (calls b)) = Inr data1"
    and mismatch: "int (length data1) \<noteq> file_Size file"
    and size2: "env_HandleDownloadSize E rmsg1 (file_Name file) (file_Size file) = (None, rmsg2)"
    and answer2: "downloadAnswer E b file (Suc (length (calls b))) = Inr data2"
  shows "\<exists>b'. handleDownloadFile E rmsg file False b
       = Inr ((None, downloadedInto E rmsg2 file data2), b')
     \<and> calls b' = calls b @ [downloadCall b file, downloadCall b file]
     \<and> slept b' = slept b + Second \<and> clock b' = clock b + Second"
proof -
  from fileCached_state [OF cached] obtain c where
    b1: "b1 = b\<lparr>cache := c\<rparr>" and c: "\<And>k. map_of c k = map_of (cache b) k" by blast
  define bS where "bS = time_Sleep (1 * Second) (called (downloadCall b file) b1)"
  have first: "handleDownloadFile E rmsg file False b = handleDownloadFile E rmsg1 file True bS"
    using cached size answer1 mismatch
    by (subst handleDownloadFile.simps)
      (simp add: b1 bS_def downloadAnswer_def downloadCall_def)
  have bS: "cache bS = c" "clock bS = clock b + Second" "slept bS = slept b + Second"
    "calls bS = calls b @ [downloadCall b file]" "GetString bS = GetString b"
    by (simp_all add: bS_def b1 time_Sleep_eq called_def Second_def)
  have "\<exists>c'. fileCached bS file = Inr (False, bS\<lparr>cache := c'\<rparr>)"
    by (rule fileCached_later [OF cached]) (simp_all add: bS c Second_def)
  then obtain c' where cached2: "fileCached bS file = Inr (False, bS\<lparr>cache := c'\<rparr>)"
    by blast
  have "downloadAnswer E bS file (length (calls bS)) = Inr data2"
    using answer2 by (simp add: downloadAnswer_def bS)
  from handleDownloadFile_no_retry [OF cached2 size2 this, of True]
  have second: "handleDownloadFile E rmsg1 file True bS
       = Inr ((None, downloadedInto E rmsg2 file data2),
              called (downloadCall bS file) (bS\<lparr>cache := c'\<rparr>))"
    by simp
  have "downloadCall bS file = downloadCall b file"
    by (simp add: downloadCall_def bS)
  with first second bS show ?thesis
    by (simp add: called_def)
qed

text \<open>
  Claim C8: when \<open>fileCached\<close> holds, \<open>handleDownloadFile\<close> returns success
  with the message as it was, no call and no sleep; when the size and blacklist policy
  rejects the file, it returns success without a download; and when the first download
  has a length other than the declared size, it sleeps one second, downloads once more
  and hands the second data to \<open>HandleDownloadData2\<close> whatever its length, returning
  success after exactly two download calls.
\<close>

theorem handleDownloadFile_retries_once:
  "(fileCached b file = Inr (True, b1) \<longrightarrow>
      handleDownloadFile E rmsg file retry b = Inr ((None, rmsg), b1)
      \<and> calls b1 = calls b \<and> slept b1 = slept b)
   \<and> (fileCached b file = Inr (False, b1)
       \<and> env_HandleDownloadSize E rmsg (file_Name file) (file_Size file) = (Some err, rmsg1)
      \<longrightarrow> handleDownloadFile E rmsg file retry b = Inr ((None, rmsg1), b1)
          \<and> calls b1 = calls b \<and> slept b1 = slept b)
   \<and> (fileCached b file = Inr (False, b1)
       \<and> env_HandleDownloadSize E rmsg (file_Name file) (file_Size file) = (None, rmsg1)
       \<and> downloadAnswer E b file (length (calls b)) = Inr data1
       \<and> int (length data1) \<noteq> file_Size file
       \<and> env_HandleDownloadSize E rmsg1 (file_Name file) (file_Size file) = (None, rmsg2)
       \<and> downloadAnswer E b file (Suc (length (calls b))) = Inr data2
      \<longrightarrow> (\<exists>b'. handleDownloadFile E rmsg file False b
                  = Inr ((None, downloadedInto E rmsg2 file data2), b')
            \<and> calls b' = calls b @ [downloadCall b file, downloadCall b file]
            \<and> slept b' = slept b + Second \<and> clock b' = clock b + Second))"
  using handleDownloadFile_cached [where b = b and ?file = "file" and ?b1.0 = b1 and E = E
      and rmsg = rmsg and retry = retry]
    handleDownloadFile_rejected [where b = b and ?file = "file" and ?b1.0 = b1 and E = E
      and rmsg = rmsg and err = err and ?rmsg1.0 = rmsg1 and retry = retry]
    handleDownloadFile_retry_once [where b = b and ?file = "file" and ?b1.0 = b1 and E = E
      and rmsg = rmsg and ?rmsg1.0 = rmsg1 and ?data1.0 = data1 and ?rmsg2.0 = rmsg2
      and ?data2.0 = data2]
  by blast

theorem handleDownloadFile_retries_once_witness:
  "\<exists>b'. handleDownloadFile env_short_download (message_empty\<lparr>msg_Text := ''caption''\<rparr>)
             file0 False bridge0
       = Inr ((None, downloadedInto env_short_download
                 (message_empty\<lparr>msg_Text := ''caption''\<rparr>) file0 ''ab''), b')
     \<and> calls b' = calls bridge0 @ [downloadCall bridge0 file0, downloadCall bridge0 file0]
     \<and> slept b' = slept bridge0 + Second \<and> clock b' = clock bridge0 + Second"
proof -
  let ?m = "message_empty\<lparr>msg_Text := ''caption''\<rparr>"
  have cached: "fileCached bridge0 file0 = Inr (False, bridge0)"
    by (simp add: fileCached_def cache_Get_def bridge0_def)
  have size: "env_HandleDownloadSize env_short_download ?m (file_Name file0) (file_Size file0)
      = (None, ?m)"
    by (simp add: env_short_download_def env0_def)
  have answer1: "downloadAnswer env_short_download bridge0 file0 (length (calls bridge0))
      = Inr ''ab''"
    and answer2: "downloadAnswer env_short_download bridge0 file0 (Suc (length (calls bridge0)))
      = Inr ''ab''"
    by (simp_all add: downloadAnswer_def env_short_download_def)
  have mismatch: "int (length ''ab'') \<noteq> file_Size file0"
    by (simp add: file0_def)
  from handleDownloadFile_retries_once [where b = bridge0 and ?file = file0 and ?b1.0 = bridge0
      and E = env_short_download and rmsg = ?m and ?rmsg1.0 = ?m and ?rmsg2.0 = ?m
      and ?data1.0 = "''ab''" and ?data2.0 = "''ab''"]
    cached size answer1 answer2 mismatch
  show ?thesis by blast
qed

section \<open>The events endpoint\<close>



section \<open>Messages without text at Send\<close>




end
